theory Spec2Isabelle
  imports Complex_Main
begin

section \<open>Focus score: the database trigger\<close>

text \<open>
  The score of a session is computed by the trigger function
  \<^verbatim>\<open>calculate_focus_score\<close> of \<^verbatim>\<open>database/supabase_schema.sql\<close> (PostgreSQL), which runs
  before every insert into the table \<^verbatim>\<open>sessions\<close>. The MySQL part of the same file has
  the function \<^verbatim>\<open>RecommendTechnique\<close>.

  A value of SQL type NUMERIC is a rational, and a nullable one is a \<open>rat option\<close> with
  \<open>None\<close> for NULL. The columns the trigger reads are taken as not NULL: the client always
  sends them. A statement of the trigger either yields a value or aborts the insert with an
  error, so the trigger returns \<open>Inl\<close> of the error or \<open>Inr\<close> of the row.
\<close>

type_synonym numeric = "rat option"

datatype sql_error = IntegerOutOfRange | NumericFieldOverflow

definition sql_bind :: "sql_error + 'a \<Rightarrow> ('a \<Rightarrow> sql_error + 'b) \<Rightarrow> sql_error + 'b" where
  "sql_bind m f = (case m of Inl e \<Rightarrow> Inl e | Inr v \<Rightarrow> f v)"

text \<open>
  The result of an operation on values of type INTEGER: an error outside of 32 bits.
\<close>

definition int4 :: "int \<Rightarrow> sql_error + int" where
  "int4 x = (if - 2147483648 \<le> x \<and> x \<le> 2147483647 then Inr x else Inl IntegerOutOfRange)"

text \<open>
  The column \<^verbatim>\<open>focus_score\<close> has type NUMERIC(5,2), and so has the field of \<^verbatim>\<open>NEW\<close>:
  every assignment to it rounds the value to two decimals, a half going away from zero,
  and aborts with "numeric field overflow" when the rounded value does not fit three
  digits before the point.
\<close>

definition round_half_away :: "rat \<Rightarrow> int" where
  "round_half_away y = (if 0 \<le> y then \<lfloor>y + 1 / 2\<rfloor> else - \<lfloor>- y + 1 / 2\<rfloor>)"

definition numeric_5_2 :: "numeric \<Rightarrow> sql_error + numeric" where
  "numeric_5_2 a =
    (case a of
       None \<Rightarrow> Inr None
     | Some x \<Rightarrow>
        (let r = of_int (round_half_away (x * 100)) / 100
         in if \<bar>r\<bar> < 1000 then Inr (Some r) else Inl NumericFieldOverflow))"

text \<open>\<^verbatim>\<open>NULLIF(a, b)\<close>: NULL when both are equal, else \<open>a\<close>.\<close>

definition NULLIF :: "int \<Rightarrow> int \<Rightarrow> int option" where
  "NULLIF a b = (if a = b then None else Some a)"

text \<open>\<^verbatim>\<open>x::NUMERIC\<close> on a nullable integer.\<close>

definition to_numeric :: "int option \<Rightarrow> numeric" where
  "to_numeric a = map_option of_int a"

definition COALESCE :: "numeric \<Rightarrow> numeric \<Rightarrow> numeric" where
  "COALESCE a b = (case a of None \<Rightarrow> b | Some x \<Rightarrow> Some x)"

text \<open>Arithmetic on nullable values: NULL as soon as an operand is NULL.\<close>

definition num_add :: "numeric \<Rightarrow> numeric \<Rightarrow> numeric" where
  "num_add a b = (case a of None \<Rightarrow> None | Some x \<Rightarrow> (case b of None \<Rightarrow> None | Some y \<Rightarrow> Some (x + y)))"

definition num_sub :: "numeric \<Rightarrow> numeric \<Rightarrow> numeric" where
  "num_sub a b = (case a of None \<Rightarrow> None | Some x \<Rightarrow> (case b of None \<Rightarrow> None | Some y \<Rightarrow> Some (x - y)))"

definition num_mul :: "numeric \<Rightarrow> numeric \<Rightarrow> numeric" where
  "num_mul a b = (case a of None \<Rightarrow> None | Some x \<Rightarrow> (case b of None \<Rightarrow> None | Some y \<Rightarrow> Some (x * y)))"

text \<open>
  Division. The divisor of the trigger is always \<^verbatim>\<open>NULLIF(NEW.duration, 0)\<close>, which is
  NULL and never zero. The quotient is kept exact here. PostgreSQL rounds it at 16 or more
  decimals while it is below 10000; the values that the trigger assigns from it are then
  rounded to two decimals, and with operands of type INTEGER a value that is not itself on
  a boundary of that rounding is further from it than the error of the quotient, so the
  assigned values are the same. A larger quotient overflows the field in both.
\<close>

definition num_div :: "numeric \<Rightarrow> numeric \<Rightarrow> numeric" where
  "num_div a b = (case a of None \<Rightarrow> None | Some x \<Rightarrow>
     (case b of None \<Rightarrow> None | Some y \<Rightarrow> Some (x / y)))"

text \<open>
  \<^verbatim>\<open>GREATEST\<close> and \<^verbatim>\<open>LEAST\<close> of PostgreSQL (\<open>pg_GREATEST\<close> and \<open>pg_LEAST\<close> here) ignore NULL
  arguments; the result is NULL only when every argument is NULL.
\<close>

definition pg_GREATEST :: "numeric \<Rightarrow> numeric \<Rightarrow> numeric" where
  "pg_GREATEST a b = (case a of None \<Rightarrow> b | Some x \<Rightarrow> (case b of None \<Rightarrow> Some x | Some y \<Rightarrow> Some (max x y)))"

definition pg_LEAST :: "numeric \<Rightarrow> numeric \<Rightarrow> numeric" where
  "pg_LEAST a b = (case a of None \<Rightarrow> b | Some x \<Rightarrow> (case b of None \<Rightarrow> Some x | Some y \<Rightarrow> Some (min x y)))"

text \<open>A comparison with NULL is NULL, which \<^verbatim>\<open>IF\<close> and \<^verbatim>\<open>ELSIF\<close> take as not true.\<close>

definition num_ge :: "numeric \<Rightarrow> rat \<Rightarrow> bool" where
  "num_ge a b = (case a of None \<Rightarrow> False | Some x \<Rightarrow> x \<ge> b)"

text \<open>The row \<^verbatim>\<open>NEW\<close> of table \<^verbatim>\<open>sessions\<close>, with the columns the trigger reads and writes.\<close>

record sessions_row =
  duration :: int
  distractions :: int
  focus_score :: numeric
  mouse_inactive_time :: int
  keyboard_inactive_time :: int
  camera_enabled :: bool
  camera_absence_time :: int
  recommended_technique :: "string option"

text \<open>
  The trigger, statement by statement: \<open>total_idle\<close> and the two expressions on
  \<^verbatim>\<open>NEW.distractions\<close> are computed on INTEGER, the five assignments to
  \<^verbatim>\<open>NEW.focus_score\<close> go through \<open>numeric_5_2\<close>.
\<close>

definition calculate_focus_score :: "sessions_row \<Rightarrow> sql_error + sessions_row" where
  "calculate_focus_score NEW0 =
    sql_bind (int4 (mouse_inactive_time NEW0 + keyboard_inactive_time NEW0)) (\<lambda>total_idle.
    let idle_ratio = num_div (Some (of_int total_idle)) (to_numeric (NULLIF (duration NEW0) 0)) in
    sql_bind (numeric_5_2 (num_mul (num_sub (Some 1) (COALESCE idle_ratio (Some 0))) (Some 40))) (\<lambda>v1.
    let NEW1 = NEW0\<lparr>focus_score := v1\<rparr> in
    sql_bind (int4 (distractions NEW1 * 3)) (\<lambda>d3.
    sql_bind (int4 (30 - d3)) (\<lambda>p.
    let dist_penalty = pg_GREATEST (Some 0) (Some (of_int p)) in
    sql_bind (numeric_5_2 (num_add (focus_score NEW1) dist_penalty)) (\<lambda>v2.
    let NEW2 = NEW1\<lparr>focus_score := v2\<rparr> in
    sql_bind (if distractions NEW2 = 0 then Inr (Some 20)
              else sql_bind (int4 (distractions NEW2 * 2)) (\<lambda>d2.
                   sql_bind (int4 (20 - d2)) (\<lambda>c.
                   Inr (pg_GREATEST (Some 0) (Some (of_int c)))))) (\<lambda>cons_score.
    sql_bind (numeric_5_2 (num_add (focus_score NEW2) cons_score)) (\<lambda>v3.
    let NEW3 = NEW2\<lparr>focus_score := v3\<rparr>;
        cam_score = (if camera_enabled NEW3
                     then num_mul (num_sub (Some 1)
                            (num_div (Some (of_int (camera_absence_time NEW3)))
                                     (to_numeric (NULLIF (duration NEW3) 0)))) (Some 10)
                     else Some 5) in
    sql_bind (numeric_5_2 (num_add (focus_score NEW3) cam_score)) (\<lambda>v4.
    let NEW4 = NEW3\<lparr>focus_score := v4\<rparr> in
    sql_bind (numeric_5_2 (pg_GREATEST (Some 0) (pg_LEAST (Some 100) (focus_score NEW4)))) (\<lambda>v5.
    let NEW5 = NEW4\<lparr>focus_score := v5\<rparr> in
    Inr (if distractions NEW5 > 5 then NEW5\<lparr>recommended_technique := Some ''study-sprint''\<rparr>
         else if num_ge (focus_score NEW5) 70 then NEW5\<lparr>recommended_technique := Some ''52-17''\<rparr>
         else if num_ge (focus_score NEW5) 50 then NEW5\<lparr>recommended_technique := Some ''pomodoro''\<rparr>
         else NEW5\<lparr>recommended_technique := Some ''flowtime''\<rparr>))))))))))"

text \<open>
  The MySQL function \<^verbatim>\<open>RecommendTechnique(avgDistractions, avgFocusScore)\<close>, on the values of
  its two DECIMAL(5,2) arguments (the second may be NULL).
\<close>

definition RecommendTechnique :: "rat \<Rightarrow> numeric \<Rightarrow> string" where
  "RecommendTechnique avgDistractions avgFocusScore =
    (if avgDistractions > 5 then ''study-sprint''
     else if num_ge avgFocusScore 70 then ''52-17''
     else if num_ge avgFocusScore 50 then ''pomodoro''
     else ''flowtime'')"

text \<open>The row a client submits, before the trigger has run.\<close>

definition inserted_row :: "int \<Rightarrow> int \<Rightarrow> int \<Rightarrow> int \<Rightarrow> bool \<Rightarrow> int \<Rightarrow> sessions_row" where
  "inserted_row duration_s mouseIdle_s keyboardIdle_s n cameraEnabled cameraAbsence_s =
     \<lparr>duration = duration_s, distractions = n, focus_score = Some 0,
      mouse_inactive_time = mouseIdle_s, keyboard_inactive_time = keyboardIdle_s,
      camera_enabled = cameraEnabled, camera_absence_time = cameraAbsence_s,
      recommended_technique = None\<rparr>"

text \<open>
  The score as the specification words it (section 4.6), for comparison with the code:
  both ratios are capped at 1 before they are used.
\<close>

definition spec_computeScore :: "int \<Rightarrow> int \<Rightarrow> int \<Rightarrow> int \<Rightarrow> bool \<Rightarrow> int \<Rightarrow> rat" where
  "spec_computeScore duration_s mouseIdle_s keyboardIdle_s n cameraEnabled cameraAbsence_s =
    (let idle_ratio = (if duration_s = 0 then 0
                       else of_int (mouseIdle_s + keyboardIdle_s) / of_int duration_s);
         idle_component = (1 - min 1 idle_ratio) * 40;
         distraction_penalty = max 0 (of_int (30 - n * 3));
         consistency = (if n = 0 then 20 else max 0 (of_int (20 - n * 2)));
         camera_component = (if cameraEnabled
                             then (1 - min 1 (of_int cameraAbsence_s / of_int duration_s)) * 10
                             else 5)
     in max 0 (min 100 (idle_component + distraction_penalty + consistency + camera_component)))"

section \<open>The distraction detection module\<close>

text \<open>
  The module keeps one object \<^verbatim>\<open>distractionState\<close>, the list \<^verbatim>\<open>mouseTimestamps\<close> and the
  variable \<^verbatim>\<open>lastTabSwitchTime\<close> of the listeners. Timestamps are the integers that
  \<^verbatim>\<open>Date.now()\<close> returns (milliseconds); counters are JavaScript numbers holding integers.

  The record is the object that \<^verbatim>\<open>startDistractionTracking\<close> creates. Every function that
  reads a field runs behind the test of \<open>running\<close> or in a callback created behind it, so it
  always finds this object and never the initial literal, which lacks some of the fields.
  \<open>lastFaceCheck\<close> is the one field that \<^verbatim>\<open>startDistractionTracking\<close> leaves undefined.
  A handler reads the clock once in the model: the value \<open>now\<close> is also the one
  \<^verbatim>\<open>checkDistraction\<close> reads when the handler calls it.
\<close>

record distractionState =
  running :: bool
  mode :: string
  lastActivityTime :: int
  lastDistractionTime :: int
  mouseInactiveTime :: int
  keyboardInactiveTime :: int
  tabSwitches :: int
  distractionCount :: int
  currentState :: string
  cameraAbsenceTime :: int
  consecutiveFaceFailures :: int
  isFaceMissing :: bool
  isMultipleFaces :: bool
  lastFaceCheck :: "int option"
  detectionInterval :: bool

definition MOUSE_THRESHOLD :: int where "MOUSE_THRESHOLD = 60000"
definition KEYBOARD_THRESHOLD :: int where "KEYBOARD_THRESHOLD = 60000"
definition LONG_PAUSE :: int where "LONG_PAUSE = 180000"
definition CAMERA_THRESHOLD :: int where "CAMERA_THRESHOLD = 120000"
definition CHECK_INTERVAL :: int where "CHECK_INTERVAL = 1000"
definition DISTRACTION_COOLDOWN :: int where "DISTRACTION_COOLDOWN = 10000"
definition FACE_GRACE_PERIOD :: int where "FACE_GRACE_PERIOD = 2"
definition MOUSE_HISTORY_SIZE :: nat where "MOUSE_HISTORY_SIZE = 5"

text \<open>
  What a handler does besides changing the state: the calls of \<^verbatim>\<open>checkDistraction\<close> (a
  qualifying event is raised, with its reason), of \<^verbatim>\<open>showFocusAlert\<close> (the advisory), the
  start of a face poll, and an exception.
\<close>

datatype effect =
    Distraction string
  | FocusAlert string
  | FacePoll
  | Thrown string

definition startDistractionTracking :: "int \<Rightarrow> string \<Rightarrow> distractionState" where
  "startDistractionTracking now mode0 =
     \<lparr>running = True, mode = mode0, lastActivityTime = now, lastDistractionTime = 0,
      mouseInactiveTime = 0, keyboardInactiveTime = 0, tabSwitches = 0, distractionCount = 0,
      currentState = ''focused'', cameraAbsenceTime = 0, consecutiveFaceFailures = 0,
      isFaceMissing = False, isMultipleFaces = False, lastFaceCheck = None,
      detectionInterval = True\<rparr>"

definition stopDistractionTracking :: "distractionState \<Rightarrow> distractionState" where
  "stopDistractionTracking s = s\<lparr>running := False, detectionInterval := False\<rparr>"

text \<open>
  The cooldown gate. \<^verbatim>\<open>distractionState.lastDistractionTime && ...\<close> is false when the last
  time is 0, the value \<^verbatim>\<open>startDistractionTracking\<close> gives it.
\<close>

definition checkDistraction :: "int \<Rightarrow> string \<Rightarrow> distractionState \<Rightarrow> distractionState" where
  "checkDistraction now reason s =
    (if lastDistractionTime s \<noteq> 0 \<and> now - lastDistractionTime s < DISTRACTION_COOLDOWN then s
     else s\<lparr>distractionCount := distractionCount s + 1, lastDistractionTime := now\<rparr>)"

text \<open>The loop of \<^verbatim>\<open>detectBotPattern\<close> that collects \<^verbatim>\<open>timestamps[i] - timestamps[i - 1]\<close>.\<close>

fun intervals_of :: "int list \<Rightarrow> int list" where
  "intervals_of (a # b # ts) = (b - a) # intervals_of (b # ts)"
| "intervals_of ts = []"

text \<open>
  \<^verbatim>\<open>intervals.reduce((a, b) => a + b)\<close> has no initial value: it starts from the first
  element and throws a TypeError on an empty array. The mean, the variance and the root
  are computed on real numbers: the rounding of double precision is not modelled.
\<close>

definition detectBotPattern :: "int \<Rightarrow> int list \<Rightarrow> distractionState \<Rightarrow> distractionState \<times> effect list" where
  "detectBotPattern now timestamps s =
    (if length timestamps < 3 then (s, [])
     else (case intervals_of timestamps of
         [] \<Rightarrow> (s, [Thrown ''TypeError''])
       | i0 # rest \<Rightarrow>
          (let intervals = i0 # rest;
               avg = real_of_int (foldl (+) i0 rest) / real (length intervals);
               variance = foldl (\<lambda>a b. a + (real_of_int b - avg)\<^sup>2) 0 intervals / real (length intervals);
               stdDev = sqrt variance
           in if stdDev < 20 \<and> avg > 1000
              then (checkDistraction now ''Bot behavior suspected (Perfect Timing)'' s,
                    [Distraction ''Bot behavior suspected (Perfect Timing)'',
                     FocusAlert ''Please stop using automated scripts.''])
              else (s, []))))"

record module_state =
  dstate :: distractionState
  mouseTimestamps :: "int list"
  lastTabSwitchTime :: int

definition resetActivity :: "string \<Rightarrow> int \<Rightarrow> module_state \<Rightarrow> module_state \<times> effect list" where
  "resetActivity type now m =
    (if \<not> running (dstate m) then (m, [])
     else
      (let s1 = (dstate m)\<lparr>lastActivityTime := now\<rparr>;
           (s2, ts2, effs) =
             (if type = ''mouse'' then
                (let ts1 = mouseTimestamps m @ [now] in
                 if length ts1 > MOUSE_HISTORY_SIZE
                 then (let shifted = tl ts1; (s, e) = detectBotPattern now shifted s1
                       in (s, shifted, e))
                 else (s1, ts1, []))
              else (s1, mouseTimestamps m, []));
           s3 = (if currentState s2 \<noteq> ''focused'' \<and> currentState s2 \<noteq> ''reading''
                 then s2\<lparr>currentState := ''focused''\<rparr> else s2)
       in (m\<lparr>dstate := s3, mouseTimestamps := ts2\<rparr>, effs)))"

text \<open>
  The listeners of \<^verbatim>\<open>visibilitychange\<close> (with \<^verbatim>\<open>document.hidden\<close> as \<open>hidden\<close>) and of
  \<^verbatim>\<open>blur\<close>.
\<close>

definition onVisibilityChange :: "bool \<Rightarrow> int \<Rightarrow> module_state \<Rightarrow> module_state \<times> effect list" where
  "onVisibilityChange hidden now m =
    (if hidden \<and> running (dstate m) \<and> now - lastTabSwitchTime m > 1000
     then (m\<lparr>lastTabSwitchTime := now,
             dstate := checkDistraction now ''Tab switch detected (Hidden)''
                         ((dstate m)\<lparr>tabSwitches := tabSwitches (dstate m) + 1\<rparr>)\<rparr>,
           [Distraction ''Tab switch detected (Hidden)''])
     else (m, []))"

definition onBlur :: "int \<Rightarrow> module_state \<Rightarrow> module_state \<times> effect list" where
  "onBlur now m =
    (if running (dstate m) \<and> now - lastTabSwitchTime m > 1000
     then (m\<lparr>lastTabSwitchTime := now,
             dstate := checkDistraction now ''Window focus lost''
                         ((dstate m)\<lparr>tabSwitches := tabSwitches (dstate m) + 1\<rparr>)\<rparr>,
           [Distraction ''Window focus lost''])
     else (m, []))"

text \<open>
  The periodic tick of the module. \<open>cameraOk\<close> stands for the test
  \<^verbatim>\<open>isCameraActive() && ... && FACE_DETECTION_ENABLED\<close> and \<open>videoEl\<close> for the presence of
  the element \<^verbatim>\<open>cameraPreview\<close>. The tick tests \<open>running\<close> and nothing else before it
  updates the accumulators.
\<close>

definition updateDistractionLoop :: "int \<Rightarrow> bool \<Rightarrow> bool \<Rightarrow> distractionState \<Rightarrow> distractionState \<times> effect list" where
  "updateDistractionLoop now cameraOk videoEl s =
    (if \<not> running s then (s, [])
     else
      (let idleTime = now - lastActivityTime s;
           s1 = (if idleTime > 1000
                 then s\<lparr>mouseInactiveTime := mouseInactiveTime s + CHECK_INTERVAL,
                        keyboardInactiveTime := keyboardInactiveTime s + CHECK_INTERVAL\<rparr>
                 else s);
           (s2, e2) =
             (if mode s1 = ''screen'' then
                (if idleTime > LONG_PAUSE then
                   (if currentState s1 \<noteq> ''away''
                    then (checkDistraction now ''Long pause detected'' (s1\<lparr>currentState := ''away''\<rparr>),
                          [Distraction ''Long pause detected''])
                    else (s1, []))
                 else if idleTime > MOUSE_THRESHOLD then
                   (if currentState s1 \<noteq> ''distracted''
                    then (checkDistraction now ''High inactivity detected''
                            (s1\<lparr>currentState := ''distracted''\<rparr>),
                          [Distraction ''High inactivity detected'',
                           FocusAlert ''You seem inactive. Are you still studying?''])
                    else (s1, []))
                 else (s1\<lparr>currentState := ''focused''\<rparr>, []))
              else ((if idleTime > 0 then s1\<lparr>currentState := ''reading''\<rparr> else s1), []));
           (s3, e3) =
             (if cameraOk \<and> (case lastFaceCheck s2 of None \<Rightarrow> True
                                | Some t \<Rightarrow> t = 0 \<or> now - t > 5000)
              then (s2\<lparr>lastFaceCheck := Some now\<rparr>, (if videoEl then [FacePoll] else []))
              else (s2, []))
       in (s3, e2 @ e3)))"

text \<open>
  The callback that \<^verbatim>\<open>updateDistractionLoop\<close> gives to \<^verbatim>\<open>detectFacePresence(videoEl).then\<close>:
  it runs once for each poll that resolves, with the detector's result.
\<close>

record face_result =
  face_detected :: bool
  face_count :: int

definition onFacePresence :: "int \<Rightarrow> face_result \<Rightarrow> distractionState \<Rightarrow> distractionState \<times> effect list" where
  "onFacePresence now result s =
    (if \<not> face_detected result then
       (let s1 = s\<lparr>consecutiveFaceFailures := consecutiveFaceFailures s + 1\<rparr>;
            s2 = s1\<lparr>cameraAbsenceTime := cameraAbsenceTime s1 + 5000\<rparr>
        in if \<not> isFaceMissing s2 \<and> consecutiveFaceFailures s2 \<ge> FACE_GRACE_PERIOD
           then (checkDistraction now ''Face not detected (Sustained)'' (s2\<lparr>isFaceMissing := True\<rparr>),
                 [Distraction ''Face not detected (Sustained)''])
           else (s2, []))
     else
       (let s1 = s\<lparr>consecutiveFaceFailures := 0, isFaceMissing := False\<rparr>
        in if face_count result > 1 then
             (if \<not> isMultipleFaces s1
              then (checkDistraction now ''Multiple faces detected'' (s1\<lparr>isMultipleFaces := True\<rparr>),
                    [Distraction ''Multiple faces detected''])
              else (s1, []))
           else (s1\<lparr>isMultipleFaces := False\<rparr>, [])))"

text \<open>\<^verbatim>\<open>getDistractionMetrics\<close>: the snapshot the study page polls.\<close>

record distractionMetrics =
  distractionCount :: int
  tabSwitches :: int
  mouseInactiveTime :: int
  keyboardInactiveTime :: int
  cameraAbsenceTime :: int
  currentState :: string

definition getDistractionMetrics :: "distractionState \<Rightarrow> distractionMetrics" where
  "getDistractionMetrics s =
     \<lparr>distractionCount = distractionState.distractionCount s,
      tabSwitches = distractionState.tabSwitches s,
      mouseInactiveTime = distractionState.mouseInactiveTime s,
      keyboardInactiveTime = distractionState.keyboardInactiveTime s,
      cameraAbsenceTime = distractionState.cameraAbsenceTime s,
      currentState = distractionState.currentState s\<rparr>"

section \<open>The study page: session state, timer, monitoring and pause\<close>

text \<open>
  The object \<^verbatim>\<open>sessionState\<close> of \<^verbatim>\<open>frontend/js/study.js\<close>. The field \<open>timerInterval\<close>
  stands for the interval that \<^verbatim>\<open>startTimer\<close> schedules together with the variable
  \<^verbatim>\<open>remainingTime\<close> its callback closes over: \<open>None\<close> when no interval is scheduled (never
  started, or cleared by \<^verbatim>\<open>clearInterval\<close>), \<open>Some r\<close> when one is, with \<open>r\<close> the current
  \<^verbatim>\<open>remainingTime\<close> (\<open>None\<close> for \<^verbatim>\<open>null\<close>, the count-up of flowtime).
\<close>

record sessionState =
  active :: bool
  paused :: bool
  startTime :: "int option"
  duration :: int
  timerInterval :: "int option option"
  technique :: string
  studyMode :: string
  cameraEnabled :: bool
  distractions :: int
  tabSwitches :: int
  mouseInactiveTime :: int
  keyboardInactiveTime :: int
  cameraAbsenceTime :: int
  faceAbsenceTime :: int
  idleTime :: rat
  currentState :: string

definition initial_sessionState :: sessionState where
  "initial_sessionState =
     \<lparr>active = False, paused = False, startTime = None, duration = 0, timerInterval = None,
      technique = ''pomodoro'', studyMode = ''screen'', cameraEnabled = False, distractions = 0,
      tabSwitches = 0, mouseInactiveTime = 0, keyboardInactiveTime = 0, cameraAbsenceTime = 0,
      faceAbsenceTime = 0, idleTime = 0, currentState = ''focused''\<rparr>"

text \<open>
  The table \<^verbatim>\<open>TECHNIQUES\<close>. The page takes the key from its select element or from the
  session the server reports, whose column admits the four techniques only. A key the
  table does not hold gives \<^verbatim>\<open>undefined\<close> (\<open>None\<close>); the names that every JavaScript
  object inherits (such as \<^verbatim>\<open>constructor\<close>) are not keys of the model.
\<close>

record technique_config =
  name :: string
  study :: "int option"
  break :: "int option"

definition TECHNIQUES :: "string \<Rightarrow> technique_config option" where
  "TECHNIQUES key =
    (if key = ''pomodoro'' then Some \<lparr>name = ''Pomodoro'', study = Some (25 * 60), break = Some (5 * 60)\<rparr>
     else if key = ''52-17'' then Some \<lparr>name = ''52-17 Technique'', study = Some (52 * 60), break = Some (17 * 60)\<rparr>
     else if key = ''study-sprint'' then Some \<lparr>name = ''Study Sprint'', study = Some (15 * 60), break = Some (5 * 60)\<rparr>
     else if key = ''flowtime'' then Some \<lparr>name = ''Flowtime'', study = None, break = None\<rparr>
     else None)"

text \<open>What the page shows or plays.\<close>

datatype ui_effect =
    TimerDisplay int
  | NotificationSound
  | ShowAlert string string
  | LiveStats
  | PauseBtnText string
  | TimerOpacity string

text \<open>
  \<^verbatim>\<open>startTimer\<close>. Reading \<^verbatim>\<open>config.study\<close> of an unknown technique throws (\<open>None\<close>).
\<close>

definition startTimer :: "sessionState \<Rightarrow> (sessionState \<times> ui_effect list) option" where
  "startTimer s =
    (case TECHNIQUES (technique s) of
       None \<Rightarrow> None
     | Some config \<Rightarrow>
        (let remainingTime =
               (case study config of
                  None \<Rightarrow> None
                | Some r \<Rightarrow> if duration s > 0 then Some (r - duration s) else Some r)
         in Some (s\<lparr>timerInterval := Some remainingTime\<rparr>,
                  [TimerDisplay (case remainingTime of None \<Rightarrow> 0 | Some r \<Rightarrow> r)])))"

text \<open>The callback of the interval of \<^verbatim>\<open>startTimer\<close>; nothing runs once the interval is cleared.\<close>

definition timerTick :: "sessionState \<Rightarrow> sessionState \<times> ui_effect list" where
  "timerTick s =
    (case timerInterval s of
       None \<Rightarrow> (s, [])
     | Some remainingTime \<Rightarrow>
        if paused s then (s, [])
        else
          (let s1 = s\<lparr>duration := duration s + 1\<rparr> in
           case remainingTime of
             Some r \<Rightarrow>
               (let r1 = r - 1 in
                if r1 \<le> 0
                then (s1\<lparr>timerInterval := None\<rparr>,
                      [TimerDisplay r1, NotificationSound,
                       ShowAlert ''Study session complete! Time for a break.'' ''success'', LiveStats])
                else (s1\<lparr>timerInterval := Some (Some r1)\<rparr>, [TimerDisplay r1, LiveStats]))
           | None \<Rightarrow> (s1, [TimerDisplay (duration s1), LiveStats])))"

text \<open>
  The callback of the interval of \<^verbatim>\<open>startMonitoring\<close>, with the module's state at that
  moment. Its peer-room part only shows alerts and is left out.
\<close>

definition monitoringTick :: "distractionState \<Rightarrow> sessionState \<Rightarrow> sessionState" where
  "monitoringTick d s =
    (if \<not> active s \<or> paused s then s
     else
      (let metrics = getDistractionMetrics d in
       s\<lparr>distractions := distractionMetrics.distractionCount metrics,
         tabSwitches := distractionMetrics.tabSwitches metrics,
         mouseInactiveTime := distractionMetrics.mouseInactiveTime metrics,
         keyboardInactiveTime := distractionMetrics.keyboardInactiveTime metrics,
         idleTime := of_int (distractionMetrics.mouseInactiveTime metrics) / 1000,
         currentState := distractionMetrics.currentState metrics\<rparr>))"

definition togglePause :: "sessionState \<Rightarrow> sessionState \<times> ui_effect list" where
  "togglePause s =
    (let s1 = s\<lparr>paused := \<not> paused s\<rparr>
     in (s1, [PauseBtnText (if paused s1 then ''Resume'' else ''Pause''),
              TimerOpacity (if paused s1 then ''0.5'' else ''1'')]))"

text \<open>
  \<^verbatim>\<open>startSession\<close>, on the session state: \<open>responseOk\<close> is the answer of the server,
  \<open>cameraStarted\<close> that of \<^verbatim>\<open>startCamera\<close>. A failure before the state is written leaves it
  as it was; one thrown by \<^verbatim>\<open>startTimer\<close> is caught after the state was written.
\<close>

definition startSession :: "int \<Rightarrow> string \<Rightarrow> string \<Rightarrow> bool \<Rightarrow> bool \<Rightarrow> bool \<Rightarrow> sessionState \<Rightarrow> sessionState" where
  "startSession now technique0 studyMode0 cameraEnabled0 responseOk cameraStarted s =
    (if \<not> responseOk then s
     else
      (let s1 = s\<lparr>active := True, startTime := Some now, technique := technique0,
                   studyMode := studyMode0, cameraEnabled := cameraEnabled0, duration := 0\<rparr>;
           s2 = (if cameraEnabled0 \<and> \<not> cameraStarted then s1\<lparr>cameraEnabled := False\<rparr> else s1)
       in (case startTimer s2 of None \<Rightarrow> s2 | Some (s3, effs) \<Rightarrow> s3)))"

text \<open>
  The restore of \<^verbatim>\<open>checkActiveSession\<close>, from the session the server reports. It writes
  the state and then calls \<^verbatim>\<open>updateUIForSessionStart\<close>, which reads
  \<^verbatim>\<open>TECHNIQUES[sessionState.technique].name\<close> and throws on an unknown technique: the
  camera step and the timer are then not reached.
\<close>

definition restoreSession :: "int \<Rightarrow> string \<Rightarrow> string \<Rightarrow> bool \<Rightarrow> int \<Rightarrow> bool \<Rightarrow> sessionState \<Rightarrow> sessionState" where
  "restoreSession start_time technique0 study_mode camera_enabled0 elapsed_seconds cameraStarted s =
    (let s1 = s\<lparr>active := True, technique := technique0, studyMode := study_mode,
                 cameraEnabled := camera_enabled0, duration := elapsed_seconds,
                 startTime := Some start_time\<rparr>
     in (case TECHNIQUES (technique s1) of
           None \<Rightarrow> s1
         | Some config \<Rightarrow>
            (let s2 = (if cameraEnabled s1 \<and> \<not> cameraStarted then s1\<lparr>cameraEnabled := False\<rparr> else s1)
             in (case startTimer s2 of None \<Rightarrow> s2 | Some (s3, effs) \<Rightarrow> s3))))"

text \<open>\<^verbatim>\<open>Math.round\<close>: to the nearest integer, a half going up.\<close>

definition Math_round :: "rat \<Rightarrow> int" where
  "Math_round x = \<lfloor>x + 1 / 2\<rfloor>"

text \<open>The payload \<^verbatim>\<open>endSession\<close> sends, and the state it leaves (the timer is cleared).\<close>

record payload =
  duration :: int
  distractions :: int
  mouse_inactive_time :: int
  keyboard_inactive_time :: int
  tab_switches :: int
  camera_absence_time :: int
  face_absence_time :: int
  dominant_emotion :: string
  emotion_confidence :: rat
  user_state :: string

definition endSession_payload :: "sessionState \<Rightarrow> payload" where
  "endSession_payload s =
     \<lparr>duration = sessionState.duration s,
      distractions = sessionState.distractions s,
      mouse_inactive_time = Math_round (of_int (sessionState.mouseInactiveTime s) / 1000),
      keyboard_inactive_time = Math_round (of_int (sessionState.keyboardInactiveTime s) / 1000),
      tab_switches = sessionState.tabSwitches s,
      camera_absence_time = Math_round (of_int (sessionState.cameraAbsenceTime s) / 1000),
      face_absence_time = 0,
      dominant_emotion = ''UNKNOWN'',
      emotion_confidence = 0,
      user_state = (if sessionState.currentState s = [] then ''focused'' else sessionState.currentState s)\<rparr>"

definition endSession :: "sessionState \<Rightarrow> sessionState \<times> payload" where
  "endSession s = (s\<lparr>timerInterval := None\<rparr>, endSession_payload s)"

text \<open>The operations that write the session state, and a run of them from the initial state.\<close>

datatype page_event =
    StartSession int string string bool bool bool
  | RestoreSession int string string bool int bool
  | TimerTick
  | MonitoringTick distractionState
  | TogglePause

fun page_step :: "sessionState \<Rightarrow> page_event \<Rightarrow> sessionState" where
  "page_step s (StartSession now t m c ok cam) = startSession now t m c ok cam s"
| "page_step s (RestoreSession st t m c e cam) = restoreSession st t m c e cam s"
| "page_step s TimerTick = fst (timerTick s)"
| "page_step s (MonitoringTick d) = monitoringTick d s"
| "page_step s TogglePause = fst (togglePause s)"

definition page_run :: "page_event list \<Rightarrow> sessionState" where
  "page_run evs = foldl page_step initial_sessionState evs"

section \<open>Runs of the handlers\<close>

text \<open>
  A run of the cooldown gate: the events submitted to \<^verbatim>\<open>checkDistraction\<close>, each with the
  clock reading of its call and its reason, in the order of the calls. \<open>increments\<close> lists
  the clock readings of the calls that changed \<open>distractionCount\<close>.
\<close>

fun run_gate :: "distractionState \<Rightarrow> (int \<times> string) list \<Rightarrow> distractionState" where
  "run_gate s [] = s"
| "run_gate s ((now, reason) # evs) = run_gate (checkDistraction now reason s) evs"

fun increments :: "distractionState \<Rightarrow> (int \<times> string) list \<Rightarrow> int list" where
  "increments s [] = []"
| "increments s ((now, reason) # evs) =
     (if distractionState.distractionCount (checkDistraction now reason s)
           \<noteq> distractionState.distractionCount s
      then [now] else [])
     @ increments (checkDistraction now reason s) evs"

text \<open>A run of presence polls: the results that resolve, in order, with what they raise.\<close>

fun face_polls :: "distractionState \<Rightarrow> (int \<times> face_result) list \<Rightarrow> distractionState \<times> effect list" where
  "face_polls s [] = (s, [])"
| "face_polls s ((now, result) # rs) =
     (let (s1, e1) = onFacePresence now result s;
          (s2, e2) = face_polls s1 rs
      in (s2, e1 @ e2))"

text \<open>
  The statistics of the bot detector as the specification words them (section 4.2): the
  consecutive inter-arrival intervals of a list of timestamps, their mean and their
  population standard deviation.
\<close>

definition spec_intervals :: "int list \<Rightarrow> int list" where
  "spec_intervals ts = map (\<lambda>(a, b). b - a) (zip ts (tl ts))"

definition spec_mean :: "int list \<Rightarrow> real" where
  "spec_mean xs = real_of_int (sum_list xs) / real (length xs)"

definition spec_stddev :: "int list \<Rightarrow> real" where
  "spec_stddev xs = sqrt ((\<Sum>x\<leftarrow>xs. (real_of_int x - spec_mean xs)\<^sup>2) / real (length xs))"

text \<open>
  The page with its three periodic callbacks: the timer of \<^verbatim>\<open>startTimer\<close>, the metrics
  sync of \<^verbatim>\<open>startMonitoring\<close> and \<^verbatim>\<open>updateDistractionLoop\<close> of the distraction module.
\<close>

record page_state =
  session :: sessionState
  tracking :: distractionState

datatype periodic = Timer | Monitoring | Detection int bool bool

fun periodic_tick :: "periodic \<Rightarrow> page_state \<Rightarrow> page_state" where
  "periodic_tick Timer p = p\<lparr>session := fst (timerTick (session p))\<rparr>"
| "periodic_tick Monitoring p = p\<lparr>session := monitoringTick (tracking p) (session p)\<rparr>"
| "periodic_tick (Detection now cameraOk videoEl) p =
     p\<lparr>tracking := fst (updateDistractionLoop now cameraOk videoEl (tracking p))\<rparr>"

text \<open>\<open>n\<close> firings of the timer's interval in a row.\<close>

definition timer_ticks :: "nat \<Rightarrow> sessionState \<Rightarrow> sessionState" where
  "timer_ticks n s = ((\<lambda>s. fst (timerTick s)) ^^ n) s"

section \<open>Properties of the focus score\<close>

lemmas sql_defs = NULLIF_def to_numeric_def COALESCE_def num_add_def num_sub_def num_mul_def
  num_div_def pg_GREATEST_def pg_LEAST_def num_ge_def sql_bind_def int4_def numeric_5_2_def
  round_half_away_def

lemma sql_bind_Inr [simp]: "sql_bind (Inr v) f = f v" by (simp add: sql_bind_def)
lemma sql_bind_Inl [simp]: "sql_bind (Inl e) f = Inl e" by (simp add: sql_bind_def)
lemma int4_in_range: "- 2147483648 \<le> x \<Longrightarrow> x \<le> 2147483647 \<Longrightarrow> int4 x = Inr x"
  by (simp add: int4_def)
lemma floor_rat_numeral_div [simp]:
  "\<lfloor>(numeral a :: rat) / numeral b\<rfloor> = numeral a div numeral b"
  using floor_divide_of_int_eq[of "numeral a" "numeral b", where ?'a = rat] by simp
lemma numeric_5_2_None [simp]: "numeric_5_2 None = Inr None" by (simp add: numeric_5_2_def)

text \<open>
  C3. For a session of 1500 seconds with no idle time, no distraction and the camera off,
  the trigger returns the row with the score 95 (40 + 30 + 20 + 5) and the recommended
  technique 52-17.
\<close>

theorem C3_scenario_1500_no_idle:
  "calculate_focus_score (inserted_row 1500 0 0 0 False 0)
     = Inr ((inserted_row 1500 0 0 0 False 0)
              \<lparr>focus_score := Some 95, recommended_technique := Some ''52-17''\<rparr>)"
  by (simp add: calculate_focus_score_def inserted_row_def sql_defs Let_def)

subsection \<open>Rounding, and what the trigger returns\<close>

text \<open>
  Three rows show the assignments at work: a score rounded to two decimals, a score that
  the rounding lifts to 70, and an idle ratio of 26 whose component does not fit the field.
\<close>

lemma calculate_focus_score_rounds:
  "calculate_focus_score (inserted_row 3 1 0 0 False 0)
     = Inr ((inserted_row 3 1 0 0 False 0)
              \<lparr>focus_score := Some (8167 / 100), recommended_technique := Some ''52-17''\<rparr>)"
  by (simp add: calculate_focus_score_def inserted_row_def sql_defs Let_def)

lemma calculate_focus_score_rounds_up_to_70:
  "calculate_focus_score (inserted_row 10000 6251 0 0 False 0)
     = Inr ((inserted_row 10000 6251 0 0 False 0)
              \<lparr>focus_score := Some 70, recommended_technique := Some ''52-17''\<rparr>)"
  by (simp add: calculate_focus_score_def inserted_row_def sql_defs Let_def)

lemma calculate_focus_score_overflow:
  "calculate_focus_score (inserted_row 1 13 13 6 False 0) = Inl NumericFieldOverflow"
  by (simp add: calculate_focus_score_def inserted_row_def sql_defs Let_def)

lemma sql_bind_eq_Inr: "sql_bind m f = Inr r \<longleftrightarrow> (\<exists>v. m = Inr v \<and> f v = Inr r)"
  by (cases m) simp_all

lemma round_half_away_ge:
  assumes "of_int A \<le> y" shows "A \<le> round_half_away y"
proof (cases "0 \<le> y")
  case True
  have "of_int A \<le> y + 1 / 2" using assms by simp
  then show ?thesis using True by (simp add: round_half_away_def le_floor_iff)
next
  case False
  have "of_int \<lfloor>- y + 1 / 2\<rfloor> \<le> - y + 1 / 2" by (rule of_int_floor_le)
  also have "\<dots> < of_int (- A + 1)" using assms by simp
  finally have "\<lfloor>- y + 1 / 2\<rfloor> < - A + 1" by (simp only: of_int_less_iff)
  then show ?thesis using False by (simp add: round_half_away_def)
qed

lemma round_half_away_le:
  assumes "y \<le> of_int B" shows "round_half_away y \<le> B"
proof (cases "0 \<le> y")
  case True
  have "y + 1 / 2 < of_int (B + 1)" using assms by simp
  then have "\<lfloor>y + 1 / 2\<rfloor> < B + 1" by (simp only: floor_less_iff)
  then show ?thesis using True by (simp add: round_half_away_def)
next
  case False
  have "of_int (- B) \<le> - y + 1 / 2" using assms by simp
  then have "- B \<le> \<lfloor>- y + 1 / 2\<rfloor>" by (simp only: le_floor_iff)
  then show ?thesis using False by (simp add: round_half_away_def)
qed

lemma numeric_5_2_bounds:
  assumes "of_int A \<le> x * 100" "x * 100 \<le> of_int B" "- 100000 < A" "B < 100000"
  shows "\<exists>r. numeric_5_2 (Some x) = Inr (Some r) \<and> of_int A \<le> r * 100 \<and> r * 100 \<le> of_int B"
proof -
  let ?k = "round_half_away (x * 100)"
  have k: "A \<le> ?k" "?k \<le> B"
    using assms(1,2) by (simp_all add: round_half_away_ge round_half_away_le)
  then have "\<bar>(of_int ?k :: rat) / 100\<bar> < 1000"
    using assms(3,4) by (simp add: abs_less_iff) 
  then have "numeric_5_2 (Some x) = Inr (Some (of_int ?k / 100))"
    by (simp add: numeric_5_2_def Let_def)
  moreover have "of_int A \<le> (of_int ?k :: rat) / 100 * 100" "(of_int ?k :: rat) / 100 * 100 \<le> of_int B"
    using k by simp_all
  ultimately show ?thesis by blast
qed

lemma numeric_5_2_clamp:
  assumes "numeric_5_2 (pg_GREATEST (Some 0) (pg_LEAST (Some 100) X)) = Inr v"
  shows "\<exists>x. v = Some x \<and> 0 \<le> x \<and> x \<le> 100"
proof -
  obtain c where c: "pg_GREATEST (Some 0) (pg_LEAST (Some 100) X) = Some c" "0 \<le> c" "c \<le> 100"
    by (cases X) (simp_all add: pg_GREATEST_def pg_LEAST_def)
  have "of_int 0 \<le> c * 100" "c * 100 \<le> of_int 10000" using c(2,3) by simp_all
  from numeric_5_2_bounds[OF this] obtain r where
    "numeric_5_2 (Some c) = Inr (Some r)" "of_int 0 \<le> r * 100" "r * 100 \<le> of_int 10000" by auto
  with assms c(1) show ?thesis by auto
qed

lemma calculate_focus_score_unfold:
  "calculate_focus_score NEW =
    sql_bind (int4 (sessions_row.mouse_inactive_time NEW + sessions_row.keyboard_inactive_time NEW)) (\<lambda>total_idle.
    sql_bind (numeric_5_2 (num_mul (num_sub (Some 1)
        (COALESCE (num_div (Some (of_int total_idle)) (to_numeric (NULLIF (sessions_row.duration NEW) 0))) (Some 0)))
        (Some 40))) (\<lambda>v1.
    sql_bind (int4 (sessions_row.distractions NEW * 3)) (\<lambda>d3.
    sql_bind (int4 (30 - d3)) (\<lambda>p.
    sql_bind (numeric_5_2 (num_add v1 (pg_GREATEST (Some 0) (Some (of_int p))))) (\<lambda>v2.
    sql_bind (if sessions_row.distractions NEW = 0 then Inr (Some 20)
              else sql_bind (int4 (sessions_row.distractions NEW * 2)) (\<lambda>d2.
                   sql_bind (int4 (20 - d2)) (\<lambda>c.
                   Inr (pg_GREATEST (Some 0) (Some (of_int c)))))) (\<lambda>cons_score.
    sql_bind (numeric_5_2 (num_add v2 cons_score)) (\<lambda>v3.
    sql_bind (numeric_5_2 (num_add v3
        (if camera_enabled NEW
         then num_mul (num_sub (Some 1)
                (num_div (Some (of_int (sessions_row.camera_absence_time NEW)))
                         (to_numeric (NULLIF (sessions_row.duration NEW) 0)))) (Some 10)
         else Some 5))) (\<lambda>v4.
    sql_bind (numeric_5_2 (pg_GREATEST (Some 0) (pg_LEAST (Some 100) v4))) (\<lambda>v5.
    Inr (NEW\<lparr>focus_score := v5,
              recommended_technique :=
                Some (if sessions_row.distractions NEW > 5 then ''study-sprint''
                      else if num_ge v5 70 then ''52-17''
                      else if num_ge v5 50 then ''pomodoro''
                      else ''flowtime'')\<rparr>))))))))))"
  unfolding calculate_focus_score_def Let_def
  by (intro arg_cong2[where f = sql_bind] refl ext) simp_all

lemma calculate_focus_score_Inr:
  assumes "calculate_focus_score NEW = Inr NEW'"
  shows "\<exists>X v5. numeric_5_2 (pg_GREATEST (Some 0) (pg_LEAST (Some 100) X)) = Inr v5
          \<and> focus_score NEW' = v5
          \<and> recommended_technique NEW' =
               Some (if sessions_row.distractions NEW > 5 then ''study-sprint''
                     else if num_ge v5 70 then ''52-17''
                     else if num_ge v5 50 then ''pomodoro''
                     else ''flowtime'')"
  using assms
  apply (simp only: calculate_focus_score_def sql_bind_eq_Inr Let_def)
  apply (elim exE conjE)
  apply (rule exI, rule exI, rule conjI, assumption)
  apply (simp only: sum.inject)
  apply (auto split: if_splits)
  done

lemma ratio_bounds:
  assumes "0 \<le> a" "a \<le> c * d" "0 \<le> d" "0 \<le> c"
  shows "\<exists>q. num_div (Some (rat_of_int a)) (to_numeric (NULLIF d 0)) = q
          \<and> (d = 0 \<longrightarrow> q = None)
          \<and> (d \<noteq> 0 \<longrightarrow> (\<exists>r. q = Some r \<and> 0 \<le> r \<and> r \<le> of_int c))"
proof (cases "d = 0")
  case True
  then show ?thesis by (simp add: num_div_def to_numeric_def NULLIF_def)
next
  case False
  with assms(3) have pos: "0 < d" by simp
  have "rat_of_int a \<le> rat_of_int c * rat_of_int d"
    using assms(2) by (metis of_int_le_iff of_int_mult)
  then have "rat_of_int a / rat_of_int d \<le> rat_of_int c"
    using pos by (simp add: divide_le_eq)
  moreover have "0 \<le> rat_of_int a / rat_of_int d" using assms(1) pos by simp
  ultimately show ?thesis using False by (simp add: num_div_def to_numeric_def NULLIF_def)
qed

lemma calculate_focus_score_returns:
  assumes m: "0 \<le> sessions_row.mouse_inactive_time NEW" and k: "0 \<le> sessions_row.keyboard_inactive_time NEW"
    and mk: "sessions_row.mouse_inactive_time NEW + sessions_row.keyboard_inactive_time NEW \<le> 2147483647"
    and d0: "0 \<le> sessions_row.distractions NEW" and d1: "sessions_row.distractions NEW \<le> 715827882"
    and du: "0 \<le> sessions_row.duration NEW" and ca: "0 \<le> sessions_row.camera_absence_time NEW"
    and idle: "sessions_row.mouse_inactive_time NEW + sessions_row.keyboard_inactive_time NEW \<le> 25 * sessions_row.duration NEW"
    and absent: "sessions_row.camera_absence_time NEW \<le> 4 * sessions_row.duration NEW"
  shows "\<exists>NEW'. calculate_focus_score NEW = Inr NEW'"
proof -
  let ?t = "sessions_row.mouse_inactive_time NEW + sessions_row.keyboard_inactive_time NEW"
  have s0: "int4 ?t = Inr ?t" using m k mk by (simp add: int4_def)
  \<comment> \<open>idle component\<close>
  obtain x1 where x1: "num_mul (num_sub (Some 1)
        (COALESCE (num_div (Some (rat_of_int ?t)) (to_numeric (NULLIF (sessions_row.duration NEW) 0))) (Some 0)))
        (Some 40) = Some x1" "of_int (- 96000) \<le> x1 * 100" "x1 * 100 \<le> of_int 4000"
  proof (cases "sessions_row.duration NEW = 0")
    case True
    then show ?thesis
      using that[of 40] by (simp add: num_div_def to_numeric_def NULLIF_def COALESCE_def num_mul_def num_sub_def)
  next
    case False
    from ratio_bounds[of ?t 25 "sessions_row.duration NEW"] m k idle du False
    obtain r where r: "num_div (Some (rat_of_int ?t)) (to_numeric (NULLIF (sessions_row.duration NEW) 0)) = Some r"
      "0 \<le> r" "r \<le> 25" by auto
    show ?thesis
      using that[of "(1 - r) * 40"] r
      by (simp add: COALESCE_def num_mul_def num_sub_def)
  qed
  from numeric_5_2_bounds[OF x1(2,3)] obtain v1 where
    v1: "numeric_5_2 (Some x1) = Inr (Some v1)" "of_int (- 96000) \<le> v1 * 100" "v1 * 100 \<le> of_int 4000"
    by auto
  \<comment> \<open>distraction penalty\<close>
  have s2: "int4 (sessions_row.distractions NEW * 3) = Inr (sessions_row.distractions NEW * 3)"
    and s3: "int4 (30 - sessions_row.distractions NEW * 3) = Inr (30 - sessions_row.distractions NEW * 3)"
    using d0 d1 by (simp_all add: int4_def)
  define pen where "pen = max 0 (rat_of_int (30 - sessions_row.distractions NEW * 3))"
  have pen: "pg_GREATEST (Some 0) (Some (rat_of_int (30 - sessions_row.distractions NEW * 3))) = Some pen"
    "0 \<le> pen" "pen \<le> 30"
    using d0 by (simp_all add: pen_def pg_GREATEST_def)
  have "of_int (- 96000) \<le> (v1 + pen) * 100" "(v1 + pen) * 100 \<le> of_int 7000"
    using v1(2,3) pen(2,3) by (simp_all add: algebra_simps)
  from numeric_5_2_bounds[OF this] obtain v2 where
    v2: "numeric_5_2 (Some (v1 + pen)) = Inr (Some v2)" "of_int (- 96000) \<le> v2 * 100" "v2 * 100 \<le> of_int 7000"
    by auto
  \<comment> \<open>consistency\<close>
  define cons where "cons = (if sessions_row.distractions NEW = 0 then 20 else max 0 (rat_of_int (20 - sessions_row.distractions NEW * 2)))"
  have cons: "(if sessions_row.distractions NEW = 0 then Inr (Some 20)
               else sql_bind (int4 (sessions_row.distractions NEW * 2)) (\<lambda>d2.
                    sql_bind (int4 (20 - d2)) (\<lambda>c.
                    Inr (pg_GREATEST (Some 0) (Some (rat_of_int c)))))) = Inr (Some cons)"
    "0 \<le> cons" "cons \<le> 20"
    using d0 d1 by (simp_all add: cons_def int4_def pg_GREATEST_def)
  have "of_int (- 96000) \<le> (v2 + cons) * 100" "(v2 + cons) * 100 \<le> of_int 9000"
    using v2(2,3) cons(2,3) by (simp_all add: algebra_simps)
  from numeric_5_2_bounds[OF this] obtain v3 where
    v3: "numeric_5_2 (Some (v2 + cons)) = Inr (Some v3)" "of_int (- 96000) \<le> v3 * 100" "v3 * 100 \<le> of_int 9000"
    by auto
  \<comment> \<open>camera\<close>
  let ?cam = "(if camera_enabled NEW
               then num_mul (num_sub (Some 1)
                      (num_div (Some (rat_of_int (sessions_row.camera_absence_time NEW)))
                               (to_numeric (NULLIF (sessions_row.duration NEW) 0)))) (Some 10)
               else Some 5)"
  obtain v4 where v4: "numeric_5_2 (num_add (Some v3) ?cam) = Inr v4"
  proof (cases "camera_enabled NEW \<and> sessions_row.duration NEW = 0")
    case True
    then show ?thesis
      using that[of None] by (simp add: num_div_def to_numeric_def NULLIF_def num_mul_def num_sub_def num_add_def)
  next
    case False
    obtain c where c: "?cam = Some c" "- 30 \<le> c" "c \<le> 10"
    proof (cases "camera_enabled NEW")
      case True
      with False have nz: "sessions_row.duration NEW \<noteq> 0" by simp
      from ratio_bounds[of "sessions_row.camera_absence_time NEW" 4 "sessions_row.duration NEW"] ca absent du nz
      obtain r where r: "num_div (Some (rat_of_int (sessions_row.camera_absence_time NEW)))
           (to_numeric (NULLIF (sessions_row.duration NEW) 0)) = Some r" "0 \<le> r" "r \<le> 4" by auto
      show ?thesis using that[of "(1 - r) * 10"] r True by (simp add: num_mul_def num_sub_def)
    next
      case False
      then show ?thesis using that[of 5] by simp
    qed
    have "of_int (- 99000) \<le> (v3 + c) * 100" "(v3 + c) * 100 \<le> of_int 10000"
      using v3(2,3) c(2,3) by (simp_all add: algebra_simps)
    from numeric_5_2_bounds[OF this] obtain r4 where "numeric_5_2 (Some (v3 + c)) = Inr (Some r4)"
      by auto
    then show ?thesis using that[of "Some r4"] c(1) by (simp add: num_add_def)
  qed
  \<comment> \<open>clamp\<close>
  obtain cl where cl: "pg_GREATEST (Some 0) (pg_LEAST (Some 100) v4) = Some cl" "0 \<le> cl" "cl \<le> 100"
    by (cases v4) (simp_all add: pg_GREATEST_def pg_LEAST_def)
  have "of_int 0 \<le> cl * 100" "cl * 100 \<le> of_int 10000" using cl(2,3) by simp_all
  from numeric_5_2_bounds[OF this] obtain v5 where
    v5: "numeric_5_2 (Some cl) = Inr (Some v5)" by auto
  have v1': "numeric_5_2 (num_mul (num_sub (Some 1)
        (COALESCE (num_div (Some (rat_of_int ?t)) (to_numeric (NULLIF (sessions_row.duration NEW) 0))) (Some 0)))
        (Some 40)) = Inr (Some v1)"
    by (simp only: x1(1) v1(1))
  have v2': "numeric_5_2 (num_add (Some v1)
        (pg_GREATEST (Some 0) (Some (rat_of_int (30 - sessions_row.distractions NEW * 3))))) = Inr (Some v2)"
    unfolding pen(1) by (simp only: num_add_def option.case v2(1))
  have v3': "numeric_5_2 (num_add (Some v2) (Some cons)) = Inr (Some v3)"
    by (simp add: num_add_def v3(1))
  have v5': "numeric_5_2 (pg_GREATEST (Some 0) (pg_LEAST (Some 100) v4)) = Inr (Some v5)"
    by (simp only: cl(1) v5)
  show ?thesis
    unfolding calculate_focus_score_unfold
    by (simp only: s0 sql_bind_Inr v1' s2 s3 v2' cons(1) v3' v4 v5') blast
qed

text \<open>
  C4. Whenever the trigger returns a row, the stored score is not NULL and lies in
  [0, 100], and the recommendation is study-sprint if the row has more than 5
  distractions, whatever the score; otherwise it is 52-17 for a stored score of at least
  70, else pomodoro for one of at least 50, else flowtime. The trigger does return a row
  for non-negative inputs with at most 715827882 distractions, an idle total of at most 25
  times the duration (and within INTEGER) and a camera absence of at most 4 times the
  duration. The MySQL function \<^verbatim>\<open>RecommendTechnique\<close> follows the same order.
\<close>

theorem C4_recommendation_precedence:
  "(calculate_focus_score NEW = Inr NEW' \<longrightarrow>
      (\<exists>score. focus_score NEW' = Some score
         \<and> 0 \<le> score \<and> score \<le> 100
         \<and> recommended_technique NEW' =
             Some (if sessions_row.distractions NEW > 5 then ''study-sprint''
                   else if score \<ge> 70 then ''52-17''
                   else if score \<ge> 50 then ''pomodoro''
                   else ''flowtime'')))
   \<and> (0 \<le> sessions_row.mouse_inactive_time NEW \<and> 0 \<le> sessions_row.keyboard_inactive_time NEW
        \<and> sessions_row.mouse_inactive_time NEW + sessions_row.keyboard_inactive_time NEW \<le> 2147483647
        \<and> 0 \<le> sessions_row.distractions NEW \<and> sessions_row.distractions NEW \<le> 715827882
        \<and> 0 \<le> sessions_row.duration NEW \<and> 0 \<le> sessions_row.camera_absence_time NEW
        \<and> sessions_row.mouse_inactive_time NEW + sessions_row.keyboard_inactive_time NEW
              \<le> 25 * sessions_row.duration NEW
        \<and> sessions_row.camera_absence_time NEW \<le> 4 * sessions_row.duration NEW \<longrightarrow>
      (\<exists>row. calculate_focus_score NEW = Inr row))
   \<and> RecommendTechnique avgDistractions (Some avgFocusScore) =
         (if avgDistractions > 5 then ''study-sprint''
          else if avgFocusScore \<ge> 70 then ''52-17''
          else if avgFocusScore \<ge> 50 then ''pomodoro''
          else ''flowtime'')"
proof (intro conjI impI)
  assume "calculate_focus_score NEW = Inr NEW'"
  from calculate_focus_score_Inr[OF this] obtain X v5 where
    v5: "numeric_5_2 (pg_GREATEST (Some 0) (pg_LEAST (Some 100) X)) = Inr v5"
    and fs: "focus_score NEW' = v5"
    and rt: "recommended_technique NEW' =
               Some (if sessions_row.distractions NEW > 5 then ''study-sprint''
                     else if num_ge v5 70 then ''52-17''
                     else if num_ge v5 50 then ''pomodoro''
                     else ''flowtime'')"
    by blast
  from numeric_5_2_clamp[OF v5] obtain x where x: "v5 = Some x" "0 \<le> x" "x \<le> 100" by blast
  have "recommended_technique NEW' =
          Some (if sessions_row.distractions NEW > 5 then ''study-sprint''
                else if x \<ge> 70 then ''52-17''
                else if x \<ge> 50 then ''pomodoro''
                else ''flowtime'')"
    unfolding rt x(1) num_ge_def by simp
  with fs x show "\<exists>score. focus_score NEW' = Some score
         \<and> 0 \<le> score \<and> score \<le> 100
         \<and> recommended_technique NEW' =
             Some (if sessions_row.distractions NEW > 5 then ''study-sprint''
                   else if score \<ge> 70 then ''52-17''
                   else if score \<ge> 50 then ''pomodoro''
                   else ''flowtime'')"
    by blast
next
  assume "0 \<le> sessions_row.mouse_inactive_time NEW \<and> 0 \<le> sessions_row.keyboard_inactive_time NEW
        \<and> sessions_row.mouse_inactive_time NEW + sessions_row.keyboard_inactive_time NEW \<le> 2147483647
        \<and> 0 \<le> sessions_row.distractions NEW \<and> sessions_row.distractions NEW \<le> 715827882
        \<and> 0 \<le> sessions_row.duration NEW \<and> 0 \<le> sessions_row.camera_absence_time NEW
        \<and> sessions_row.mouse_inactive_time NEW + sessions_row.keyboard_inactive_time NEW
              \<le> 25 * sessions_row.duration NEW
        \<and> sessions_row.camera_absence_time NEW \<le> 4 * sessions_row.duration NEW"
  then show "\<exists>row. calculate_focus_score NEW = Inr row"
    by (intro calculate_focus_score_returns) simp_all
next
  show "RecommendTechnique avgDistractions (Some avgFocusScore) =
         (if avgDistractions > 5 then ''study-sprint''
          else if avgFocusScore \<ge> 70 then ''52-17''
          else if avgFocusScore \<ge> 50 then ''pomodoro''
          else ''flowtime'')"
    by (simp add: RecommendTechnique_def num_ge_def)
qed

theorem C4_recommendation_precedence_witness:
  "calculate_focus_score (inserted_row 1500 300 300 6 True 150)
     = Inr ((inserted_row 1500 300 300 6 True 150)
              \<lparr>focus_score := Some 53, recommended_technique := Some ''study-sprint''\<rparr>)
   \<and> recommended_technique ((inserted_row 1500 300 300 6 True 150)
              \<lparr>focus_score := Some 53, recommended_technique := Some ''study-sprint''\<rparr>)
       = Some ''study-sprint''
   \<and> (\<exists>row. calculate_focus_score (inserted_row 1500 300 300 6 True 150) = Inr row)"
proof -
  have ev: "calculate_focus_score (inserted_row 1500 300 300 6 True 150)
     = Inr ((inserted_row 1500 300 300 6 True 150)
              \<lparr>focus_score := Some 53, recommended_technique := Some ''study-sprint''\<rparr>)"
    by (simp add: calculate_focus_score_def inserted_row_def sql_defs Let_def)
  show ?thesis
    using C4_recommendation_precedence[of "inserted_row 1500 300 300 6 True 150"
        "(inserted_row 1500 300 300 6 True 150)
              \<lparr>focus_score := Some 53, recommended_technique := Some ''study-sprint''\<rparr>" 6 53]
    unfolding ev by (simp add: inserted_row_def)
qed

text \<open>
  C2 does not hold of the trigger. A session of 100 seconds with 100 seconds of idle time
  on each of mouse and keyboard (the page counts an idle second on both) has the idle
  ratio 2: the trigger does not cap it, its idle component is -40 and the stored score is
  15, with the recommendation flowtime, where the formula with the caps gives 55. Nothing
  rounds or overflows at this row.
\<close>

theorem C2_idle_ratio_not_capped:
  "calculate_focus_score (inserted_row 100 100 100 0 False 0)
     = Inr ((inserted_row 100 100 100 0 False 0)
              \<lparr>focus_score := Some 15, recommended_technique := Some ''flowtime''\<rparr>)
   \<and> spec_computeScore 100 100 100 0 False 0 = 55"
proof -
  have a1: "calculate_focus_score (inserted_row 100 100 100 0 False 0)
     = Inr ((inserted_row 100 100 100 0 False 0)
              \<lparr>focus_score := Some 15, recommended_technique := Some ''flowtime''\<rparr>)"
    by (simp add: calculate_focus_score_def inserted_row_def sql_defs Let_def)
  have a2: "spec_computeScore 100 100 100 0 False 0 = 55"
    by (simp add: spec_computeScore_def Let_def)
  show ?thesis using a1 a2 by (simp only: simp_thms)
qed

section \<open>Presence polls\<close>

lemma checkDistraction_face_fields:
  "consecutiveFaceFailures (checkDistraction now reason s) = consecutiveFaceFailures s"
  "isFaceMissing (checkDistraction now reason s) = isFaceMissing s"
  "isMultipleFaces (checkDistraction now reason s) = isMultipleFaces s"
  by (simp_all add: checkDistraction_def)

lemma onFacePresence_absent:
  assumes "\<not> face_detected r"
  shows "consecutiveFaceFailures (fst (onFacePresence now r s)) = consecutiveFaceFailures s + 1"
    and "isFaceMissing (fst (onFacePresence now r s)) = (isFaceMissing s \<or> 2 \<le> consecutiveFaceFailures s + 1)"
    and "snd (onFacePresence now r s) =
           (if \<not> isFaceMissing s \<and> 2 \<le> consecutiveFaceFailures s + 1
            then [Distraction ''Face not detected (Sustained)''] else [])"
  using assms
  by (simp_all add: onFacePresence_def Let_def FACE_GRACE_PERIOD_def checkDistraction_face_fields)

lemma onFacePresence_present:
  assumes "face_detected r"
  shows "consecutiveFaceFailures (fst (onFacePresence now r s)) = 0"
    and "\<not> isFaceMissing (fst (onFacePresence now r s))"
    and "snd (onFacePresence now r s) =
           (if 1 < face_count r \<and> \<not> isMultipleFaces s
            then [Distraction ''Multiple faces detected''] else [])"
  using assms
  by (simp_all add: onFacePresence_def Let_def checkDistraction_face_fields)

lemma face_polls_Cons:
  "face_polls s ((now, r) # rs) =
     (fst (face_polls (fst (onFacePresence now r s)) rs),
      snd (onFacePresence now r s) @ snd (face_polls (fst (onFacePresence now r s)) rs))"
  by (simp add: Let_def split: prod.splits)

lemma absent_run:
  assumes "\<forall>p \<in> set rs. \<not> face_detected (snd p)"
    and "isFaceMissing s \<longleftrightarrow> 2 \<le> consecutiveFaceFailures s"
  shows "count_list (snd (face_polls s rs)) (Distraction ''Face not detected (Sustained)'')
           = (if consecutiveFaceFailures s < 2 \<and> 2 \<le> consecutiveFaceFailures s + int (length rs) then 1 else 0)
       \<and> consecutiveFaceFailures (fst (face_polls s rs)) = consecutiveFaceFailures s + int (length rs)"
  using assms
proof (induction rs arbitrary: s)
  case Nil
  show ?case by simp
next
  case (Cons p rs)
  obtain now r where p: "p = (now, r)" by (cases p)
  let ?s1 = "fst (onFacePresence now r s)"
  from Cons.prems(1) have abs: "\<not> face_detected r" and rest: "\<forall>p \<in> set rs. \<not> face_detected (snd p)"
    by (simp_all add: p)
  have inv: "isFaceMissing ?s1 \<longleftrightarrow> 2 \<le> consecutiveFaceFailures ?s1"
    using Cons.prems(2) by (auto simp: onFacePresence_absent[OF abs])
  note IH = Cons.IH[OF rest inv]
  show ?case
    unfolding p face_polls_Cons
    using IH Cons.prems(2)
    by (auto simp: onFacePresence_absent[OF abs])
qed

text \<open>
  The claim C6 as stated fails in its last part: a poll without a face followed by a poll
  that reports a face can raise a qualifying event, the one of multiple faces. From a fresh
  state, a poll without a face and then a poll with two faces raise "Multiple faces
  detected", which the gate counts.
\<close>

theorem C6_counterexample_two_faces:
  "snd (face_polls (startDistractionTracking 0 ''screen'')
       [(5000, \<lparr>face_detected = False, face_count = 0\<rparr>),
        (10000, \<lparr>face_detected = True, face_count = 2\<rparr>)])
     = [Distraction ''Multiple faces detected'']
   \<and> distractionState.distractionCount (fst (face_polls (startDistractionTracking 0 ''screen'')
       [(5000, \<lparr>face_detected = False, face_count = 0\<rparr>),
        (10000, \<lparr>face_detected = True, face_count = 2\<rparr>)])) = 1"
  by (simp add: onFacePresence_def startDistractionTracking_def checkDistraction_def Let_def
      FACE_GRACE_PERIOD_def DISTRACTION_COOLDOWN_def)

text \<open>
  C6, amended. A poll raises the event "Face not detected (Sustained)" exactly when it
  reports no face, \<open>isFaceMissing\<close> was false and \<open>consecutiveFaceFailures\<close> reaches the
  grace period of 2 with it; the poll then sets \<open>isFaceMissing\<close> and raises that one event.
  From a state with no failure pending, a run of polls without a face raises the event once
  when it has at least two polls and not at all when it has one. A poll with a face resets
  \<open>consecutiveFaceFailures\<close> to 0 and \<open>isFaceMissing\<close> to false. In particular one poll
  without a face followed by one with a face leaves both reset and raises no event of
  sustained absence. The two polls raise no qualifying event at all when the second reports
  at most one face, or several while \<open>isMultipleFaces\<close> is already set; when it reports
  several faces and \<open>isMultipleFaces\<close> was false they raise exactly the event "Multiple
  faces detected".
\<close>

theorem C6_sustained_face_absence:
  "(Distraction ''Face not detected (Sustained)'' \<in> set (snd (onFacePresence now r s))
      \<longleftrightarrow> \<not> face_detected r \<and> \<not> isFaceMissing s \<and> FACE_GRACE_PERIOD \<le> consecutiveFaceFailures s + 1)
   \<and> (Distraction ''Face not detected (Sustained)'' \<in> set (snd (onFacePresence now r s)) \<longrightarrow>
        isFaceMissing (fst (onFacePresence now r s))
        \<and> snd (onFacePresence now r s) = [Distraction ''Face not detected (Sustained)''])
   \<and> (consecutiveFaceFailures s = 0 \<and> \<not> isFaceMissing s \<and> (\<forall>p \<in> set rs. \<not> face_detected (snd p)) \<longrightarrow>
        count_list (snd (face_polls s rs)) (Distraction ''Face not detected (Sustained)'')
          = (if 2 \<le> length rs then 1 else 0))
   \<and> (face_detected r \<longrightarrow>
        consecutiveFaceFailures (fst (onFacePresence now r s)) = 0
        \<and> \<not> isFaceMissing (fst (onFacePresence now r s)))
   \<and> (consecutiveFaceFailures s = 0 \<and> \<not> face_detected a \<and> face_detected b \<longrightarrow>
        consecutiveFaceFailures (fst (face_polls s [(t1, a), (t2, b)])) = 0
        \<and> \<not> isFaceMissing (fst (face_polls s [(t1, a), (t2, b)]))
        \<and> Distraction ''Face not detected (Sustained)'' \<notin> set (snd (face_polls s [(t1, a), (t2, b)]))
        \<and> (face_count b \<le> 1 \<longrightarrow> snd (face_polls s [(t1, a), (t2, b)]) = [])
        \<and> (1 < face_count b \<and> isMultipleFaces s \<longrightarrow> snd (face_polls s [(t1, a), (t2, b)]) = [])
        \<and> (1 < face_count b \<and> \<not> isMultipleFaces s \<longrightarrow>
              snd (face_polls s [(t1, a), (t2, b)]) = [Distraction ''Multiple faces detected'']))"
proof (intro conjI impI)
  show "Distraction ''Face not detected (Sustained)'' \<in> set (snd (onFacePresence now r s))
      \<longleftrightarrow> \<not> face_detected r \<and> \<not> isFaceMissing s \<and> FACE_GRACE_PERIOD \<le> consecutiveFaceFailures s + 1"
    by (cases "face_detected r")
       (simp_all add: onFacePresence_absent onFacePresence_present FACE_GRACE_PERIOD_def)
next
  assume "Distraction ''Face not detected (Sustained)'' \<in> set (snd (onFacePresence now r s))"
  then have *: "\<not> face_detected r" "\<not> isFaceMissing s" "2 \<le> consecutiveFaceFailures s + 1"
    by (cases "face_detected r"; simp add: onFacePresence_absent onFacePresence_present split: if_splits)+
  then show "isFaceMissing (fst (onFacePresence now r s))"
    and "snd (onFacePresence now r s) = [Distraction ''Face not detected (Sustained)'']"
    by (simp_all add: onFacePresence_absent)
next
  assume "consecutiveFaceFailures s = 0 \<and> \<not> isFaceMissing s \<and> (\<forall>p \<in> set rs. \<not> face_detected (snd p))"
  then show "count_list (snd (face_polls s rs)) (Distraction ''Face not detected (Sustained)'')
          = (if 2 \<le> length rs then 1 else 0)"
    using absent_run[of rs s] by simp
next
  assume "face_detected r"
  then show "consecutiveFaceFailures (fst (onFacePresence now r s)) = 0"
    and "\<not> isFaceMissing (fst (onFacePresence now r s))"
    by (simp_all add: onFacePresence_present)
next
  assume h: "consecutiveFaceFailures s = 0 \<and> \<not> face_detected a \<and> face_detected b"
  then show "consecutiveFaceFailures (fst (face_polls s [(t1, a), (t2, b)])) = 0"
    and "\<not> isFaceMissing (fst (face_polls s [(t1, a), (t2, b)]))"
    and "Distraction ''Face not detected (Sustained)'' \<notin> set (snd (face_polls s [(t1, a), (t2, b)]))"
    by (simp_all add: face_polls_Cons onFacePresence_absent onFacePresence_present del: face_polls.simps(2))
  have mf: "isMultipleFaces (fst (onFacePresence t1 a s)) = isMultipleFaces s"
    using h by (simp add: onFacePresence_def Let_def checkDistraction_face_fields)
  {
    assume "face_count b \<le> 1"
    with h show "snd (face_polls s [(t1, a), (t2, b)]) = []"
      by (simp add: face_polls_Cons onFacePresence_absent onFacePresence_present del: face_polls.simps(2))
  }
  {
    assume "1 < face_count b \<and> isMultipleFaces s"
    with h mf show "snd (face_polls s [(t1, a), (t2, b)]) = []"
      by (simp add: face_polls_Cons onFacePresence_absent onFacePresence_present del: face_polls.simps(2))
  }
  {
    assume "1 < face_count b \<and> \<not> isMultipleFaces s"
    with h mf show "snd (face_polls s [(t1, a), (t2, b)]) = [Distraction ''Multiple faces detected'']"
      by (simp add: face_polls_Cons onFacePresence_absent onFacePresence_present del: face_polls.simps(2))
  }
qed


theorem C6_sustained_face_absence_witness:
  "count_list (snd (face_polls (startDistractionTracking 0 ''screen'')
       [(5000, \<lparr>face_detected = False, face_count = 0\<rparr>),
        (10000, \<lparr>face_detected = False, face_count = 0\<rparr>),
        (15000, \<lparr>face_detected = False, face_count = 0\<rparr>)]))
     (Distraction ''Face not detected (Sustained)'') = 1
   \<and> snd (face_polls (startDistractionTracking 0 ''screen'')
       [(5000, \<lparr>face_detected = False, face_count = 0\<rparr>),
        (10000, \<lparr>face_detected = True, face_count = 1\<rparr>)]) = []
   \<and> consecutiveFaceFailures (fst (face_polls (startDistractionTracking 0 ''screen'')
       [(5000, \<lparr>face_detected = False, face_count = 0\<rparr>),
        (10000, \<lparr>face_detected = True, face_count = 1\<rparr>)])) = 0"
  using C6_sustained_face_absence[of 5000 "\<lparr>face_detected = False, face_count = 0\<rparr>"
      "startDistractionTracking 0 ''screen''"
      "[(5000, \<lparr>face_detected = False, face_count = 0\<rparr>),
        (10000, \<lparr>face_detected = False, face_count = 0\<rparr>),
        (15000, \<lparr>face_detected = False, face_count = 0\<rparr>)]"
      "\<lparr>face_detected = False, face_count = 0\<rparr>" "\<lparr>face_detected = True, face_count = 1\<rparr>"
      5000 10000]
  by (simp add: startDistractionTracking_def)

section \<open>The bot detector\<close>

lemma intervals_of_spec: "intervals_of ts = spec_intervals ts"
  by (induction ts rule: intervals_of.induct) (simp_all add: spec_intervals_def)

lemma length_spec_intervals: "length (spec_intervals ts) = length ts - 1"
  by (simp add: spec_intervals_def)

lemma foldl_plus_sum_list: "foldl (+) (a::int) xs = a + sum_list xs"
  by (induction xs arbitrary: a) simp_all

lemma foldl_sq_sum_list:
  "foldl (\<lambda>a b. a + (real_of_int b - c)\<^sup>2) a0 xs = a0 + (\<Sum>x\<leftarrow>xs. (real_of_int x - c)\<^sup>2)"
  by (induction xs arbitrary: a0) simp_all

lemma detectBotPattern_spec:
  assumes "3 \<le> length timestamps"
  shows "detectBotPattern now timestamps s =
     (if spec_stddev (spec_intervals timestamps) < 20 \<and> spec_mean (spec_intervals timestamps) > 1000
      then (checkDistraction now ''Bot behavior suspected (Perfect Timing)'' s,
            [Distraction ''Bot behavior suspected (Perfect Timing)'',
             FocusAlert ''Please stop using automated scripts.''])
      else (s, []))"
proof -
  from assms have "length (spec_intervals timestamps) \<noteq> 0" by (simp add: length_spec_intervals)
  then obtain i0 rest where iv: "spec_intervals timestamps = i0 # rest"
    by (cases "spec_intervals timestamps") simp_all
  have m: "real_of_int (foldl (+) i0 rest) / real (length (i0 # rest)) = spec_mean (i0 # rest)"
    by (simp add: spec_mean_def foldl_plus_sum_list)
  have sd: "sqrt (foldl (\<lambda>a b. a + (real_of_int b - spec_mean (i0 # rest))\<^sup>2) 0 (i0 # rest)
              / real (length (i0 # rest))) = spec_stddev (i0 # rest)"
    unfolding foldl_sq_sum_list spec_stddev_def by simp
  show ?thesis
    using assms unfolding detectBotPattern_def intervals_of_spec iv Let_def list.case m sd
    by simp
qed

lemma sqrt_lt_20: "sqrt x < 20 \<longleftrightarrow> x < 400"
proof -
  have "sqrt x < sqrt 400 \<longleftrightarrow> x < 400" by (rule real_sqrt_less_iff)
  moreover have "sqrt 400 = 20" using real_sqrt_abs2[of 20] by simp
  ultimately show ?thesis by simp
qed

text \<open>
  C7. When tracking runs and the buffer already holds 5 timestamps, a mouse event adds its
  timestamp and drops the oldest one, so that 5 are retained, and the detector looks at
  their 4 consecutive intervals: it raises the event "Bot behavior suspected" together with
  the advisory if and only if the population standard deviation of the intervals is below
  20 and their mean is above 1000; otherwise it raises nothing.
\<close>

theorem C7_bot_pattern_detection:
  assumes "running (dstate m)" and "length (mouseTimestamps m) = MOUSE_HISTORY_SIZE"
  shows "mouseTimestamps (fst (resetActivity ''mouse'' now m)) = tl (mouseTimestamps m @ [now])
     \<and> length (mouseTimestamps (fst (resetActivity ''mouse'' now m))) = MOUSE_HISTORY_SIZE
     \<and> length (spec_intervals (tl (mouseTimestamps m @ [now]))) = 4
     \<and> snd (resetActivity ''mouse'' now m) =
         (if spec_stddev (spec_intervals (tl (mouseTimestamps m @ [now]))) < 20
             \<and> spec_mean (spec_intervals (tl (mouseTimestamps m @ [now]))) > 1000
          then [Distraction ''Bot behavior suspected (Perfect Timing)'',
                FocusAlert ''Please stop using automated scripts.'']
          else [])"
proof -
  let ?ts = "tl (mouseTimestamps m @ [now])"
  have len: "length ?ts = 5" using assms(2) by (simp add: MOUSE_HISTORY_SIZE_def)
  then have three: "3 \<le> length ?ts" by simp
  have gt: "length (mouseTimestamps m @ [now]) > MOUSE_HISTORY_SIZE"
    using assms(2) by simp
  have r: "resetActivity ''mouse'' now m =
     (let s1 = (dstate m)\<lparr>lastActivityTime := now\<rparr>;
          (s, e) = detectBotPattern now ?ts s1;
          s3 = (if distractionState.currentState s \<noteq> ''focused'' \<and> distractionState.currentState s \<noteq> ''reading''
                then s\<lparr>distractionState.currentState := ''focused''\<rparr> else s)
      in (m\<lparr>dstate := s3, mouseTimestamps := ?ts\<rparr>, e))"
    using assms(1) gt unfolding resetActivity_def by (simp add: Let_def split: prod.splits)
  show ?thesis
    unfolding r detectBotPattern_spec[OF three]
    using len by (simp add: Let_def length_spec_intervals MOUSE_HISTORY_SIZE_def)
qed


theorem C7_bot_pattern_detection_witness:
  "running (dstate \<lparr>dstate = startDistractionTracking 0 ''screen'',
                     mouseTimestamps = [0, 5000, 10000, 15000, 20000], lastTabSwitchTime = 0\<rparr>)
   \<and> length [0::int, 5000, 10000, 15000, 20000] = MOUSE_HISTORY_SIZE
   \<and> snd (resetActivity ''mouse'' 25000
         \<lparr>dstate = startDistractionTracking 0 ''screen'',
          mouseTimestamps = [0, 5000, 10000, 15000, 20000], lastTabSwitchTime = 0\<rparr>)
       = [Distraction ''Bot behavior suspected (Perfect Timing)'',
          FocusAlert ''Please stop using automated scripts.'']
   \<and> snd (resetActivity ''mouse'' 25003
         \<lparr>dstate = startDistractionTracking 0 ''screen'',
          mouseTimestamps = [0, 5000, 10010, 15000, 20000], lastTabSwitchTime = 0\<rparr>)
       = [Distraction ''Bot behavior suspected (Perfect Timing)'',
          FocusAlert ''Please stop using automated scripts.'']
   \<and> snd (resetActivity ''mouse'' 9500
         \<lparr>dstate = startDistractionTracking 0 ''screen'',
          mouseTimestamps = [0, 1200, 4200, 5000, 7000], lastTabSwitchTime = 0\<rparr>) = []"
proof -
  have regular: "snd (resetActivity ''mouse'' 25000
         \<lparr>dstate = startDistractionTracking 0 ''screen'',
          mouseTimestamps = [0, 5000, 10000, 15000, 20000], lastTabSwitchTime = 0\<rparr>)
       = [Distraction ''Bot behavior suspected (Perfect Timing)'',
          FocusAlert ''Please stop using automated scripts.'']"
    using C7_bot_pattern_detection[of "\<lparr>dstate = startDistractionTracking 0 ''screen'',
          mouseTimestamps = [0, 5000, 10000, 15000, 20000], lastTabSwitchTime = 0\<rparr>" 25000]
    by (simp add: startDistractionTracking_def MOUSE_HISTORY_SIZE_def spec_intervals_def
        spec_mean_def spec_stddev_def)
  have jitter: "snd (resetActivity ''mouse'' 25003
         \<lparr>dstate = startDistractionTracking 0 ''screen'',
          mouseTimestamps = [0, 5000, 10010, 15000, 20000], lastTabSwitchTime = 0\<rparr>)
       = [Distraction ''Bot behavior suspected (Perfect Timing)'',
          FocusAlert ''Please stop using automated scripts.'']"
    using C7_bot_pattern_detection[of "\<lparr>dstate = startDistractionTracking 0 ''screen'',
          mouseTimestamps = [0, 5000, 10010, 15000, 20000], lastTabSwitchTime = 0\<rparr>" 25003]
    by (simp add: startDistractionTracking_def MOUSE_HISTORY_SIZE_def spec_intervals_def
        spec_mean_def spec_stddev_def sqrt_lt_20 power2_eq_square)
  have human: "snd (resetActivity ''mouse'' 9500
         \<lparr>dstate = startDistractionTracking 0 ''screen'',
          mouseTimestamps = [0, 1200, 4200, 5000, 7000], lastTabSwitchTime = 0\<rparr>) = []"
    using C7_bot_pattern_detection[of "\<lparr>dstate = startDistractionTracking 0 ''screen'',
          mouseTimestamps = [0, 1200, 4200, 5000, 7000], lastTabSwitchTime = 0\<rparr>" 9500]
    by (simp add: startDistractionTracking_def MOUSE_HISTORY_SIZE_def spec_intervals_def
        spec_mean_def spec_stddev_def sqrt_lt_20 power2_eq_square)
  show ?thesis
    unfolding regular jitter human
    by (simp add: startDistractionTracking_def MOUSE_HISTORY_SIZE_def)
qed

section \<open>The cooldown gate\<close>

subsection \<open>One call and a run of calls\<close>

lemma checkDistraction_cases:
  "(checkDistraction now reason s = s
      \<and> distractionState.lastDistractionTime s \<noteq> 0
      \<and> now - distractionState.lastDistractionTime s < DISTRACTION_COOLDOWN)
   \<or> (distractionState.distractionCount (checkDistraction now reason s) = distractionState.distractionCount s + 1
      \<and> distractionState.lastDistractionTime (checkDistraction now reason s) = now
      \<and> (distractionState.lastDistractionTime s = 0
           \<or> DISTRACTION_COOLDOWN \<le> now - distractionState.lastDistractionTime s))"
  by (simp add: checkDistraction_def)

lemma count_run_gate:
  "distractionState.distractionCount (run_gate s evs)
     = distractionState.distractionCount s + int (length (increments s evs))"
proof (induction evs arbitrary: s)
  case Nil
  show ?case by simp
next
  case (Cons e evs)
  obtain now reason where e: "e = (now, reason)" by (cases e)
  show ?case
    using checkDistraction_cases[of now reason s] Cons.IH[of "checkDistraction now reason s"]
    by (auto simp: e)
qed

lemma increments_spaced:
  assumes "\<forall>e \<in> set evs. fst e \<noteq> 0"
  shows "(distractionState.lastDistractionTime s \<noteq> 0 \<longrightarrow>
            (\<forall>t \<in> set (increments s evs). distractionState.lastDistractionTime s + DISTRACTION_COOLDOWN \<le> t))
         \<and> sorted_wrt (\<lambda>a b. a + DISTRACTION_COOLDOWN \<le> b) (increments s evs)"
  using assms
proof (induction evs arbitrary: s)
  case Nil
  show ?case by simp
next
  case (Cons e evs)
  obtain now reason where e: "e = (now, reason)" by (cases e)
  let ?s' = "checkDistraction now reason s"
  from Cons.prems have nz: "now \<noteq> 0" and rest: "\<forall>e \<in> set evs. fst e \<noteq> 0" by (simp_all add: e)
  note IH = Cons.IH[OF rest, of ?s']
  have cd: "0 \<le> DISTRACTION_COOLDOWN" by (simp add: DISTRACTION_COOLDOWN_def)
  consider (same) "?s' = s"
    | (counted) "distractionState.distractionCount ?s' = distractionState.distractionCount s + 1"
        "distractionState.lastDistractionTime ?s' = now"
        "distractionState.lastDistractionTime s = 0
           \<or> DISTRACTION_COOLDOWN \<le> now - distractionState.lastDistractionTime s"
    using checkDistraction_cases[of now reason s] by blast
  then show ?case
  proof cases
    case same
    then show ?thesis using IH by (simp add: e)
  next
    case counted
    from IH counted(2) nz have after: "\<forall>t \<in> set (increments ?s' evs). now + DISTRACTION_COOLDOWN \<le> t"
      and srt: "sorted_wrt (\<lambda>a b. a + DISTRACTION_COOLDOWN \<le> b) (increments ?s' evs)"
      by simp_all
    have inc_eq: "increments s (e # evs) = now # increments ?s' evs"
      using counted(1) by (simp add: e)
    have bound: "distractionState.lastDistractionTime s \<noteq> 0 \<longrightarrow>
            (\<forall>t \<in> set (now # increments ?s' evs). distractionState.lastDistractionTime s + DISTRACTION_COOLDOWN \<le> t)"
      using after counted(3) cd by fastforce
    show ?thesis
      unfolding inc_eq using bound after srt by simp
  qed
qed

subsection \<open>The clock readings of the raisers\<close>

text \<open>
  \<^verbatim>\<open>Date.now()\<close> counts the milliseconds since the start of 1970. The gate keeps the
  reading of the last increment in \<open>lastDistractionTime\<close> and takes the value 0, which
  \<^verbatim>\<open>startDistractionTracking\<close> gives it, for "no increment yet". No raiser of the page
  submits an event at the reading 0 when the readings are not negative: the listeners of
  blur and visibility need more than 1000 milliseconds since \<open>lastTabSwitchTime\<close>, which
  starts at 0; the tick raises an idle event more than 60000 milliseconds after the last
  activity; the bot detector raises after a retained timestamp that is earlier than the
  event. (A presence poll resolves after the tick that started it, and the interval fires
  its first tick 1000 milliseconds after the start.)
\<close>

lemma onBlur_clock:
  assumes "0 \<le> lastTabSwitchTime m" "snd (onBlur now m) \<noteq> []"
  shows "1000 < now"
  using assms by (simp add: onBlur_def split: if_splits)

lemma onVisibilityChange_clock:
  assumes "0 \<le> lastTabSwitchTime m" "snd (onVisibilityChange hidden now m) \<noteq> []"
  shows "1000 < now"
  using assms by (simp add: onVisibilityChange_def split: if_splits)

lemma updateDistractionLoop_clock:
  assumes "0 \<le> lastActivityTime s" "Distraction reason \<in> set (snd (updateDistractionLoop now cameraOk videoEl s))"
  shows "MOUSE_THRESHOLD < now"
  using assms
  by (auto simp: updateDistractionLoop_def Let_def LONG_PAUSE_def MOUSE_THRESHOLD_def split: if_splits prod.splits)

lemma sum_list_spec_intervals:
  "ts \<noteq> [] \<Longrightarrow> sum_list (spec_intervals ts) = last ts - hd ts"
  by (induction ts rule: intervals_of.induct) (simp_all add: spec_intervals_def)

lemma detectBotPattern_clock:
  assumes "Distraction reason \<in> set (snd (detectBotPattern now ts s))"
  shows "hd ts < last ts"
proof -
  have len: "3 \<le> length ts"
    using assms by (cases "length ts < 3") (simp_all add: detectBotPattern_def)
  then have ne: "ts \<noteq> []" by auto
  from assms have "spec_mean (spec_intervals ts) > 1000"
    unfolding detectBotPattern_spec[OF len] by (simp split: if_splits)
  moreover have "0 < real (length (spec_intervals ts))"
    using len by (simp add: length_spec_intervals)
  ultimately have "0 < real_of_int (sum_list (spec_intervals ts))"
    unfolding spec_mean_def by (simp add: field_simps zero_less_divide_iff split: if_splits)
  then show ?thesis using sum_list_spec_intervals[OF ne] by simp
qed

lemma resetActivity_clock:
  assumes "\<forall>t \<in> set (mouseTimestamps m). 0 \<le> t"
    and "Distraction reason \<in> set (snd (resetActivity type now m))"
  shows "0 < now"
proof -
  let ?ts = "tl (mouseTimestamps m @ [now])"
  from assms(2) have d: "Distraction reason \<in> set (snd (detectBotPattern now ?ts ((dstate m)\<lparr>lastActivityTime := now\<rparr>)))"
    and long: "MOUSE_HISTORY_SIZE < length (mouseTimestamps m @ [now])"
    by (auto simp: resetActivity_def Let_def split: if_splits prod.splits)
  from long obtain a b rest where ts: "mouseTimestamps m = a # b # rest"
    by (cases "mouseTimestamps m"; cases "tl (mouseTimestamps m)") (auto simp: MOUSE_HISTORY_SIZE_def)
  from detectBotPattern_clock[OF d] have "b < now" by (simp add: ts)
  moreover have "0 \<le> b" using assms(1) by (simp add: ts)
  ultimately show ?thesis by simp
qed

text \<open>
  At the reading 0 itself, which only a call of the gate under a clock set to 0 can
  submit, an event that is counted leaves \<open>lastDistractionTime\<close> at 0, and the gate
  counts the next event whatever its time.
\<close>

lemma checkDistraction_at_clock_zero:
  "increments (startDistractionTracking 0 ''screen'')
      [(0, ''Window focus lost''), (5, ''Tab switch detected (Hidden)'')] = [0, 5]"
  by (simp add: checkDistraction_def startDistractionTracking_def DISTRACTION_COOLDOWN_def)

subsection \<open>The spacing of the increments\<close>

text \<open>
  C1. For every sequence of qualifying events submitted to the gate, from any state, at
  clock readings other than 0 (as all readings of the page are): an event changes
  \<open>distractionCount\<close> by exactly 1 or not at all, the count grows by the number of
  accepted events, and any two increments are at least 10000 milliseconds apart, whatever
  the number of events, their raisers and the order of their times.
\<close>

theorem C1_cooldown_spacing_nonzero_clock:
  assumes "\<forall>e \<in> set evs. fst e \<noteq> 0"
  shows "(distractionState.distractionCount (checkDistraction now reason s)
             = distractionState.distractionCount s
          \<or> distractionState.distractionCount (checkDistraction now reason s)
             = distractionState.distractionCount s + 1)
       \<and> distractionState.distractionCount (run_gate s evs)
           = distractionState.distractionCount s + int (length (increments s evs))
       \<and> (\<forall>i j. i < j \<and> j < length (increments s evs) \<longrightarrow>
             increments s evs ! i + DISTRACTION_COOLDOWN \<le> increments s evs ! j)"
proof (intro conjI)
  show "distractionState.distractionCount (checkDistraction now reason s)
             = distractionState.distractionCount s
          \<or> distractionState.distractionCount (checkDistraction now reason s)
             = distractionState.distractionCount s + 1"
    by (simp add: checkDistraction_def)
  show "distractionState.distractionCount (run_gate s evs)
           = distractionState.distractionCount s + int (length (increments s evs))"
    by (rule count_run_gate)
  show "\<forall>i j. i < j \<and> j < length (increments s evs) \<longrightarrow>
             increments s evs ! i + DISTRACTION_COOLDOWN \<le> increments s evs ! j"
    using increments_spaced[OF assms, of s] by (auto simp: sorted_wrt_iff_nth_less)
qed


theorem C1_cooldown_spacing_nonzero_clock_witness:
  "increments (startDistractionTracking 1000 ''screen'')
      [(5000, ''a''), (6000, ''b''), (15000, ''c''), (15000, ''d''), (30000, ''e'')]
     = [5000, 15000, 30000]
   \<and> distractionState.distractionCount (run_gate (startDistractionTracking 1000 ''screen'')
      [(5000, ''a''), (6000, ''b''), (15000, ''c''), (15000, ''d''), (30000, ''e'')]) = 3
   \<and> (5000::int) + DISTRACTION_COOLDOWN \<le> 15000"
  using C1_cooldown_spacing_nonzero_clock[of
      "[(5000, ''a''), (6000, ''b''), (15000, ''c''), (15000, ''d''), (30000, ''e'')]"
      5000 "''a''" "startDistractionTracking 1000 ''screen''"]
  by (simp add: checkDistraction_def startDistractionTracking_def DISTRACTION_COOLDOWN_def)

section \<open>Pause\<close>

text \<open>
  The claim C5 as stated fails: the page has one pause operation, \<^verbatim>\<open>togglePause\<close>, and it
  negates the flag. Applied once to the initial state it pauses; applied twice it leaves
  the session running, and the outcome of the second call differs from that of the first.
\<close>

theorem C5_counterexample_second_call_resumes:
  "paused (fst (togglePause initial_sessionState)) = True
   \<and> paused (fst (togglePause (fst (togglePause initial_sessionState)))) = False
   \<and> togglePause (fst (togglePause initial_sessionState)) \<noteq> togglePause initial_sessionState"
  by (simp add: togglePause_def initial_sessionState_def Let_def)

text \<open>
  C5, amended. The pause operation is a toggle: one call negates the paused flag and sets
  the button label and the timer opacity from the new flag; a second call in a row restores
  the session state of before the first, and a third has the outcome of the first.
\<close>

theorem C5_togglePause_involution:
  "fst (togglePause (fst (togglePause s))) = s
   \<and> paused (fst (togglePause s)) = (\<not> paused s)
   \<and> snd (togglePause s) = [PauseBtnText (if paused s then ''Pause'' else ''Resume''),
                                TimerOpacity (if paused s then ''1'' else ''0.5'')]
   \<and> togglePause (fst (togglePause (fst (togglePause s)))) = togglePause s"
  by (simp add: togglePause_def Let_def)

section \<open>Periodic callbacks while paused\<close>

text \<open>
  The timer and the metrics sync test the paused flag first: while it is set they leave
  the page as it is.
\<close>

lemma paused_timer_and_monitoring_frozen:
  "paused (session p) \<Longrightarrow> periodic_tick Timer p = p \<and> periodic_tick Monitoring p = p"
  by (simp add: timerTick_def monitoringTick_def split: option.splits)

text \<open>
  C8 does not hold of the third periodic callback. A session is started at time 0 in
  screen mode and paused; the tick of \<^verbatim>\<open>updateDistractionLoop\<close> at time 5000 finds 5
  seconds without activity and adds 1000 to both idle accumulators of the distraction
  state, which were 0, although the session is paused. After the resume the next metrics
  sync copies the 1000 into the session state.
\<close>

theorem C8_paused_detection_tick_accumulates:
  "(let p0 = \<lparr>session = fst (togglePause
                  (startSession 0 ''pomodoro'' ''screen'' False True False initial_sessionState)),
              tracking = startDistractionTracking 0 ''screen''\<rparr>;
        p1 = periodic_tick (Detection 5000 False False) p0;
        p2 = periodic_tick Monitoring (p1\<lparr>session := fst (togglePause (session p1))\<rparr>)
    in paused (session p0)
       \<and> distractionState.mouseInactiveTime (tracking p0) = 0
       \<and> distractionState.keyboardInactiveTime (tracking p0) = 0
       \<and> paused (session p1)
       \<and> distractionState.mouseInactiveTime (tracking p1) = 1000
       \<and> distractionState.keyboardInactiveTime (tracking p1) = 1000
       \<and> sessionState.mouseInactiveTime (session p2) = 1000
       \<and> sessionState.keyboardInactiveTime (session p2) = 1000)"
  by (simp add: togglePause_def startSession_def startTimer_def TECHNIQUES_def
      initial_sessionState_def startDistractionTracking_def updateDistractionLoop_def
      monitoringTick_def getDistractionMetrics_def Let_def CHECK_INTERVAL_def LONG_PAUSE_def
      MOUSE_THRESHOLD_def)

section \<open>The session timer\<close>

lemma timerTick_countdown:
  assumes "timerInterval s = Some (Some r)" "\<not> paused s"
  shows "timerTick s =
     (if r - 1 \<le> 0
      then (s\<lparr>sessionState.duration := sessionState.duration s + 1, timerInterval := None\<rparr>,
            [TimerDisplay (r - 1), NotificationSound,
             ShowAlert ''Study session complete! Time for a break.'' ''success'', LiveStats])
      else (s\<lparr>sessionState.duration := sessionState.duration s + 1, timerInterval := Some (Some (r - 1))\<rparr>,
            [TimerDisplay (r - 1), LiveStats]))"
  using assms by (simp add: timerTick_def Let_def)

lemma timer_ticks_Suc: "timer_ticks (Suc n) s = fst (timerTick (timer_ticks n s))"
  by (simp add: timer_ticks_def)

lemma timer_ticks_running:
  assumes "timerInterval s = Some (Some r)" "\<not> paused s" "int n < r"
  shows "timer_ticks n s =
     s\<lparr>sessionState.duration := sessionState.duration s + int n, timerInterval := Some (Some (r - int n))\<rparr>"
  using assms(3)
proof (induction n)
  case 0
  show ?case using assms(1) by (simp add: timer_ticks_def)
next
  case (Suc n)
  then have IH: "timer_ticks n s =
     s\<lparr>sessionState.duration := sessionState.duration s + int n, timerInterval := Some (Some (r - int n))\<rparr>"
    by simp
  have ti: "timerInterval (timer_ticks n s) = Some (Some (r - int n))" and np: "\<not> paused (timer_ticks n s)"
    using assms(2) by (simp_all add: IH)
  from Suc.prems have "\<not> (r - int n - 1 \<le> 0)" by simp
  then show ?case
    unfolding timer_ticks_Suc timerTick_countdown[OF ti np] by (simp add: IH algebra_simps)
qed

lemma timer_ticks_complete:
  assumes "timerInterval s = Some (Some r)" "\<not> paused s" "0 < r"
  shows "timer_ticks (nat r) s =
     s\<lparr>sessionState.duration := sessionState.duration s + r, timerInterval := None\<rparr>"
proof -
  obtain n where n: "nat r = Suc n" using assms(3) by (cases "nat r") simp_all
  then have lt: "int n < r" and rn: "r - int n - 1 = 0" by linarith+
  have st: "timer_ticks n s =
     s\<lparr>sessionState.duration := sessionState.duration s + int n, timerInterval := Some (Some (r - int n))\<rparr>"
    using assms(1,2) lt by (rule timer_ticks_running)
  have ti: "timerInterval (timer_ticks n s) = Some (Some (r - int n))" and np: "\<not> paused (timer_ticks n s)"
    using assms(2) by (simp_all add: st)
  have "int n + 1 = r" using rn by simp
  then show ?thesis
    unfolding n timer_ticks_Suc timerTick_countdown[OF ti np] using rn by (simp add: st)
qed

lemma startTimer_resumed:
  assumes "TECHNIQUES (technique s) = Some config" "study config = Some d" "0 < sessionState.duration s"
  shows "startTimer s = Some (s\<lparr>timerInterval := Some (Some (d - sessionState.duration s))\<rparr>,
                              [TimerDisplay (d - sessionState.duration s)])"
  using assms by (simp add: startTimer_def Let_def)

text \<open>
  C9. The table gives the study phase 1500 seconds for pomodoro, 3120 for 52-17, 900 for
  study-sprint and none for flowtime. Started for a countdown technique with an elapsed
  duration above 0, the timer sets the remaining time to the study duration minus the
  elapsed one. A tick that is not paused adds exactly 1 to the elapsed duration and takes
  exactly 1 from the remaining time (for flowtime it shows the elapsed duration and goes
  on); when the remaining time has reached 0 or less the interval is cleared and the
  completion is signalled (sound and alert), and the session stays active. So \<open>n\<close> ticks
  in a row, fewer than the remaining time \<open>r\<close>, add \<open>n\<close> to the duration and leave
  \<open>r - n\<close>, and the \<open>r\<close>-th tick stops the countdown.
\<close>

theorem C9_timer_countdown:
  "map_option study (TECHNIQUES ''pomodoro'') = Some (Some 1500)
   \<and> map_option study (TECHNIQUES ''52-17'') = Some (Some 3120)
   \<and> map_option study (TECHNIQUES ''study-sprint'') = Some (Some 900)
   \<and> map_option study (TECHNIQUES ''flowtime'') = Some None
   \<and> (TECHNIQUES (technique s) = Some config \<and> study config = Some d \<and> 0 < sessionState.duration s \<longrightarrow>
        startTimer s = Some (s\<lparr>timerInterval := Some (Some (d - sessionState.duration s))\<rparr>,
                             [TimerDisplay (d - sessionState.duration s)]))
   \<and> (timerInterval s = Some (Some r) \<and> \<not> paused s \<longrightarrow>
        sessionState.duration (fst (timerTick s)) = sessionState.duration s + 1
        \<and> TimerDisplay (r - 1) \<in> set (snd (timerTick s))
        \<and> timerInterval (fst (timerTick s)) = (if r - 1 \<le> 0 then None else Some (Some (r - 1)))
        \<and> (NotificationSound \<in> set (snd (timerTick s)) \<longleftrightarrow> r - 1 \<le> 0)
        \<and> (ShowAlert ''Study session complete! Time for a break.'' ''success'' \<in> set (snd (timerTick s))
              \<longleftrightarrow> r - 1 \<le> 0)
        \<and> active (fst (timerTick s)) = active s)
   \<and> (timerInterval s = Some None \<and> \<not> paused s \<longrightarrow>
        timerTick s = (s\<lparr>sessionState.duration := sessionState.duration s + 1\<rparr>,
                       [TimerDisplay (sessionState.duration s + 1), LiveStats]))
   \<and> (timerInterval s = Some (Some r) \<and> \<not> paused s \<and> int n < r \<longrightarrow>
        timer_ticks n s = s\<lparr>sessionState.duration := sessionState.duration s + int n,
                             timerInterval := Some (Some (r - int n))\<rparr>)
   \<and> (timerInterval s = Some (Some r) \<and> \<not> paused s \<and> 0 < r \<longrightarrow>
        timer_ticks (nat r) s = s\<lparr>sessionState.duration := sessionState.duration s + r,
                                   timerInterval := None\<rparr>)"
proof (intro conjI impI)
  show "map_option study (TECHNIQUES ''pomodoro'') = Some (Some 1500)"
    and "map_option study (TECHNIQUES ''52-17'') = Some (Some 3120)"
    and "map_option study (TECHNIQUES ''study-sprint'') = Some (Some 900)"
    and "map_option study (TECHNIQUES ''flowtime'') = Some None"
    by (simp_all add: TECHNIQUES_def)
next
  assume "TECHNIQUES (technique s) = Some config \<and> study config = Some d \<and> 0 < sessionState.duration s"
  then show "startTimer s = Some (s\<lparr>timerInterval := Some (Some (d - sessionState.duration s))\<rparr>,
                             [TimerDisplay (d - sessionState.duration s)])"
    by (simp add: startTimer_resumed)
next
  assume h: "timerInterval s = Some (Some r) \<and> \<not> paused s"
  then have t: "timerInterval s = Some (Some r)" and np: "\<not> paused s" by simp_all
  note tick = timerTick_countdown[OF t np]
  show "sessionState.duration (fst (timerTick s)) = sessionState.duration s + 1"
    and "TimerDisplay (r - 1) \<in> set (snd (timerTick s))"
    and "timerInterval (fst (timerTick s)) = (if r - 1 \<le> 0 then None else Some (Some (r - 1)))"
    and "NotificationSound \<in> set (snd (timerTick s)) \<longleftrightarrow> r - 1 \<le> 0"
    and "ShowAlert ''Study session complete! Time for a break.'' ''success'' \<in> set (snd (timerTick s))
              \<longleftrightarrow> r - 1 \<le> 0"
    and "active (fst (timerTick s)) = active s"
    unfolding tick by simp_all
next
  assume "timerInterval s = Some None \<and> \<not> paused s"
  then show "timerTick s = (s\<lparr>sessionState.duration := sessionState.duration s + 1\<rparr>,
                       [TimerDisplay (sessionState.duration s + 1), LiveStats])"
    by (simp add: timerTick_def Let_def)
next
  assume "timerInterval s = Some (Some r) \<and> \<not> paused s \<and> int n < r"
  then show "timer_ticks n s = s\<lparr>sessionState.duration := sessionState.duration s + int n,
                             timerInterval := Some (Some (r - int n))\<rparr>"
    by (simp add: timer_ticks_running)
next
  assume "timerInterval s = Some (Some r) \<and> \<not> paused s \<and> 0 < r"
  then show "timer_ticks (nat r) s = s\<lparr>sessionState.duration := sessionState.duration s + r,
                                   timerInterval := None\<rparr>"
    by (simp add: timer_ticks_complete)
qed

theorem C9_timer_countdown_witness:
  "startTimer (initial_sessionState\<lparr>sessionState.duration := 1490\<rparr>)
     = Some (initial_sessionState\<lparr>sessionState.duration := 1490, timerInterval := Some (Some 10)\<rparr>,
             [TimerDisplay 10])
   \<and> timer_ticks 3 (initial_sessionState\<lparr>sessionState.duration := 1490, timerInterval := Some (Some 10)\<rparr>)
     = initial_sessionState\<lparr>sessionState.duration := 1493, timerInterval := Some (Some 7)\<rparr>
   \<and> timer_ticks 10 (initial_sessionState\<lparr>sessionState.duration := 1490, timerInterval := Some (Some 10)\<rparr>)
     = initial_sessionState\<lparr>sessionState.duration := 1500, timerInterval := None\<rparr>
   \<and> snd (timerTick (initial_sessionState\<lparr>sessionState.duration := 1499, timerInterval := Some (Some 1)\<rparr>))
     = [TimerDisplay 0, NotificationSound,
        ShowAlert ''Study session complete! Time for a break.'' ''success'', LiveStats]
   \<and> timerTick (initial_sessionState\<lparr>sessionState.duration := 7, technique := ''flowtime'',
                                       timerInterval := Some None\<rparr>)
     = (initial_sessionState\<lparr>sessionState.duration := 8, technique := ''flowtime'',
                              timerInterval := Some None\<rparr>, [TimerDisplay 8, LiveStats])"
proof -
  have a: "startTimer (initial_sessionState\<lparr>sessionState.duration := 1490\<rparr>)
     = Some (initial_sessionState\<lparr>sessionState.duration := 1490, timerInterval := Some (Some 10)\<rparr>,
             [TimerDisplay 10])"
    using C9_timer_countdown[of "initial_sessionState\<lparr>sessionState.duration := 1490\<rparr>"
        "\<lparr>name = ''Pomodoro'', study = Some 1500, break = Some 300\<rparr>" 1500 0 0]
    by (simp add: initial_sessionState_def TECHNIQUES_def)
  have b: "timer_ticks 3 (initial_sessionState\<lparr>sessionState.duration := 1490, timerInterval := Some (Some 10)\<rparr>)
     = initial_sessionState\<lparr>sessionState.duration := 1493, timerInterval := Some (Some 7)\<rparr>"
    and c: "timer_ticks 10 (initial_sessionState\<lparr>sessionState.duration := 1490, timerInterval := Some (Some 10)\<rparr>)
     = initial_sessionState\<lparr>sessionState.duration := 1500, timerInterval := None\<rparr>"
    using C9_timer_countdown[of
        "initial_sessionState\<lparr>sessionState.duration := 1490, timerInterval := Some (Some 10)\<rparr>"
        "\<lparr>name = ''Pomodoro'', study = Some 1500, break = Some 300\<rparr>" 1500 10 3]
    by (simp_all add: initial_sessionState_def)
  have d: "snd (timerTick (initial_sessionState\<lparr>sessionState.duration := 1499, timerInterval := Some (Some 1)\<rparr>))
     = [TimerDisplay 0, NotificationSound,
        ShowAlert ''Study session complete! Time for a break.'' ''success'', LiveStats]"
    by (simp add: timerTick_def initial_sessionState_def Let_def)
  have e: "timerTick (initial_sessionState\<lparr>sessionState.duration := 7, technique := ''flowtime'',
                                       timerInterval := Some None\<rparr>)
     = (initial_sessionState\<lparr>sessionState.duration := 8, technique := ''flowtime'',
                              timerInterval := Some None\<rparr>, [TimerDisplay 8, LiveStats])"
    using C9_timer_countdown[of
        "initial_sessionState\<lparr>sessionState.duration := 7, technique := ''flowtime'', timerInterval := Some None\<rparr>"
        "\<lparr>name = ''Flowtime'', study = None, break = None\<rparr>" 0 0 0]
    by (simp add: initial_sessionState_def)
  from a b c d e show ?thesis by (simp only: simp_thms)
qed

section \<open>The camera absence time of the payload\<close>

lemma startTimer_cameraAbsenceTime:
  "startTimer s = Some (s', effs) \<Longrightarrow> sessionState.cameraAbsenceTime s' = sessionState.cameraAbsenceTime s"
  by (auto simp: startTimer_def Let_def split: option.splits)

lemma page_step_cameraAbsenceTime:
  "sessionState.cameraAbsenceTime (page_step s ev) = sessionState.cameraAbsenceTime s"
proof (cases ev)
  case (StartSession now t m c ok cam)
  then show ?thesis
    by (auto simp: startSession_def Let_def split: option.splits dest: startTimer_cameraAbsenceTime)
next
  case (RestoreSession st t m c e cam)
  then show ?thesis
    by (auto simp: restoreSession_def Let_def split: option.splits dest: startTimer_cameraAbsenceTime)
next
  case TimerTick
  then show ?thesis
    by (simp add: timerTick_def Let_def split: option.splits)
next
  case (MonitoringTick d)
  then show ?thesis by (simp add: monitoringTick_def Let_def)
next
  case TogglePause
  then show ?thesis by (simp add: togglePause_def Let_def)
qed

lemma foldl_page_step_cameraAbsenceTime:
  "sessionState.cameraAbsenceTime (foldl page_step s evs) = sessionState.cameraAbsenceTime s"
  by (induction evs arbitrary: s) (simp_all add: page_step_cameraAbsenceTime)

lemma Math_round_ms: "Math_round (of_int x / 1000) = (x + 500) div 1000"
proof -
  have "(of_int x :: rat) / 1000 + 1 / 2 = of_int (x + 500) / of_int 1000" by simp
  then show ?thesis unfolding Math_round_def by (simp only: floor_divide_of_int_eq)
qed

lemma payload_camera_absence_time:
  "payload.camera_absence_time (endSession_payload s) = (sessionState.cameraAbsenceTime s + 500) div 1000"
  by (simp add: endSession_payload_def Math_round_ms)

text \<open>
  C10. Whatever the page did since it was loaded (sessions started or restored, timer
  ticks, pauses, metrics syncs with any state of the distraction module, whatever camera
  absence that state has accumulated), the field \<open>cameraAbsenceTime\<close> of the session state
  is still 0, and so is the \<open>camera_absence_time\<close> of the payload that \<^verbatim>\<open>endSession\<close> sends.
\<close>

theorem C10_camera_absence_time_always_zero:
  "sessionState.cameraAbsenceTime (page_run evs) = 0
   \<and> payload.camera_absence_time (endSession_payload (page_run evs)) = 0
   \<and> payload.camera_absence_time (snd (endSession (page_run evs))) = 0"
proof -
  have z: "sessionState.cameraAbsenceTime (page_run evs) = 0"
    unfolding page_run_def foldl_page_step_cameraAbsenceTime by (simp add: initial_sessionState_def)
  then show ?thesis by (simp add: endSession_def payload_camera_absence_time)
qed

end
